theory Spec2Isabelle
  imports Complex_Main
begin

section \<open>Documents, responses and the environment of a request\<close>

text \<open>
  The repository holds two Express applications over the same MongoDB collections
  (\<^verbatim>\<open>mongoose.model('User', ...)\<close>, \<^verbatim>\<open>'Game'\<close>, \<^verbatim>\<open>'Post'\<close>): the single-file server
  \<^verbatim>\<open>server.js\<close>, and the router-based server (\<^verbatim>\<open>unnamed/part_002\<close>) with
  \<^verbatim>\<open>routes/auth\<close> (\<^verbatim>\<open>unnamed/part_000\<close>), \<^verbatim>\<open>routes/admin\<close> (\<^verbatim>\<open>unnamed/part_001\<close>),
  \<^verbatim>\<open>routes/games.js\<close>, \<^verbatim>\<open>routes/community.js\<close> and \<^verbatim>\<open>middleware/isAdmin.js\<close>.
  Definitions of the first carry the prefix \<open>srv_\<close>, those of the second the name of
  their router (\<open>auth_\<close>, \<open>admin_\<close>, \<open>games_\<close>, \<open>community_\<close>).

  An ObjectId and a date (milliseconds, as \<^verbatim>\<open>Date.now()\<close>) are natural numbers; a
  nullable date is an option. A user document has the fields of the schema in
  \<^verbatim>\<open>server.js\<close> (lines 87-97) and the fields that the routers read and write
  (\<open>isActive\<close>, \<open>vipStartDate\<close>, \<open>vipExpiryDate\<close>, \<open>transactionId\<close>). A handler
  touches only the fields its source names.
\<close>

type_synonym oid = nat
type_synonym date = nat

record user =
  uid :: oid
  username :: string
  email :: string
  password :: string
  hasPaid :: bool
  isAdmin :: bool
  isBlocked :: bool
  needsPasswordChange :: bool
  paymentDate :: "date option"
  createdAt :: date
  isActive :: bool
  vipStartDate :: "date option"
  vipExpiryDate :: "date option"
  transactionId :: "string option"

text \<open>
  A game document: the fields of both Game schemas (\<^verbatim>\<open>server.js\<close> lines 99-109 and
  657-700). \<open>isVip\<close> is the VIP mark of the first schema, the category
  \<^verbatim>\<open>'VIP Tips'\<close> that of the second. \<open>matchTime\<close> is \<open>gameTime\<close> in the first
  schema; \<open>gstatus\<close>, \<open>gresult\<close> and \<open>gcreatedAt\<close> are the fields \<open>status\<close>,
  \<open>result\<close> and \<open>createdAt\<close>.
\<close>

record game =
  gid :: oid
  homeTeam :: string
  awayTeam :: string
  league :: string
  prediction :: string
  odds :: string
  category :: string
  gstatus :: string
  isVip :: bool
  matchTime :: date
  gresult :: "string option"
  gcreatedAt :: date

record post =
  pid :: oid
  pauthor :: oid
  pcontent :: string

record store =
  users :: "user list"
  games :: "game list"
  posts :: "post list"

text \<open>What \<^verbatim>\<open>res.json\<close> sends.\<close>

datatype json =
    JNull
  | JBool bool
  | JId oid
  | JDate date
  | JInt nat
  | JStr string
  | JArr "json list"
  | JObj "(string \<times> json) list"

type_synonym response = "nat \<times> json"

definition message :: "string \<Rightarrow> json" where
  "message m = JObj [(''message'', JStr m)]"

definition jdate :: "date option \<Rightarrow> json" where
  "jdate d = (case d of None \<Rightarrow> JNull | Some t \<Rightarrow> JDate t)"

definition jstr :: "string option \<Rightarrow> json" where
  "jstr s = (case s of None \<Rightarrow> JNull | Some t \<Rightarrow> JStr t)"

text \<open>
  The libraries and the clock, as one request sees them: \<^verbatim>\<open>Date.now()\<close>,
  \<^verbatim>\<open>Math.random()\<close> (a number \<open>r\<close> with \<open>0 \<le> r < 1\<close>; the arithmetic on it is exact,
  the rounding of doubles is left out), \<^verbatim>\<open>bcrypt.hash(p, 12)\<close> with the salt it draws
  in this request, \<^verbatim>\<open>bcrypt.compare\<close>, and \<^verbatim>\<open>jwt.sign\<close>/\<^verbatim>\<open>jwt.verify\<close> with the secret.
  Of a token's payload the handlers read the \<open>userId\<close> only; \<open>jwt_verify\<close> gives
  \<open>None\<close> for a token that is malformed, wrongly signed or expired.
\<close>

record env =
  date_now :: date
  math_random :: rat
  bcrypt_hash :: "string \<Rightarrow> string"
  bcrypt_compare :: "string \<Rightarrow> string \<Rightarrow> bool"
  jwt_sign :: "oid \<Rightarrow> string"
  jwt_verify :: "string \<Rightarrow> oid option"

subsection \<open>Strings\<close>

text \<open>\<^verbatim>\<open>s.split(' ')\<close>: the pieces between single spaces.\<close>

fun split_sp :: "string \<Rightarrow> string list" where
  "split_sp [] = [[]]"
| "split_sp (c # cs) =
     (if c = CHR '' '' then [] # split_sp cs
      else (case split_sp cs of [] \<Rightarrow> [[c]] | w # ws \<Rightarrow> (c # w) # ws))"

text \<open>\<^verbatim>\<open>n.toString()\<close> of a non-negative integer: its decimal digits.\<close>

definition digit :: "nat \<Rightarrow> char" where
  "digit d = ''0123456789'' ! d"

fun toString :: "nat \<Rightarrow> string" where
  "toString n = (if n < 10 then [digit n] else toString (n div 10) @ [digit (n mod 10)])"

declare toString.simps [simp del]

definition is_digit :: "char \<Rightarrow> bool" where
  "is_digit c = (c \<in> set ''0123456789'')"

subsection \<open>Queries\<close>

definition findById :: "store \<Rightarrow> oid \<Rightarrow> user option" where
  "findById db i = find (\<lambda>u. uid u = i) (users db)"

definition findOne_username :: "store \<Rightarrow> string \<Rightarrow> user option" where
  "findOne_username db n = find (\<lambda>u. username u = n) (users db)"

text \<open>\<^verbatim>\<open>User.findOne({ $or: [{ email }, { username }] })\<close>\<close>

definition findOne_email_or_username :: "store \<Rightarrow> string \<Rightarrow> string \<Rightarrow> user option" where
  "findOne_email_or_username db e n = find (\<lambda>u. email u = e \<or> username u = n) (users db)"

text \<open>
  \<^verbatim>\<open>User.findByIdAndUpdate(id, update, { new: true })\<close>: the first document with the
  id is replaced by its update, and returned; \<open>None\<close> (\<^verbatim>\<open>null\<close>) and no change when
  there is none.
\<close>

fun update_first :: "('a \<Rightarrow> bool) \<Rightarrow> ('a \<Rightarrow> 'a) \<Rightarrow> 'a list \<Rightarrow> 'a list" where
  "update_first P f [] = []"
| "update_first P f (x # xs) = (if P x then f x # xs else x # update_first P f xs)"

definition findByIdAndUpdate :: "store \<Rightarrow> oid \<Rightarrow> (user \<Rightarrow> user) \<Rightarrow> user option \<times> store" where
  "findByIdAndUpdate db i f =
     (case findById db i of
        None \<Rightarrow> (None, db)
      | Some u \<Rightarrow> (Some (f u), db\<lparr>users := update_first (\<lambda>x. uid x = i) f (users db)\<rparr>))"

text \<open>\<^verbatim>\<open>findByIdAndDelete\<close>, \<^verbatim>\<open>deleteOne\<close>: the first matching document is removed.\<close>

fun delete_first :: "('a \<Rightarrow> bool) \<Rightarrow> 'a list \<Rightarrow> 'a list" where
  "delete_first P [] = []"
| "delete_first P (x # xs) = (if P x then xs else x # delete_first P xs)"

text \<open>\<^verbatim>\<open>doc.save()\<close> of a document read from the collection: it replaces the stored one.\<close>

definition save_user :: "store \<Rightarrow> user \<Rightarrow> store" where
  "save_user db u = db\<lparr>users := update_first (\<lambda>x. uid x = uid u) (\<lambda>_. u) (users db)\<rparr>"

text \<open>A fresh ObjectId: one that no document of the list has.\<close>

definition fresh_oid :: "oid list \<Rightarrow> oid" where
  "fresh_oid ids = Suc (fold max ids 0)"

text \<open>
  Modelled from the spec: \<^verbatim>\<open>models/User.js\<close> of the router-based server is absent; the
  defaults of its fields are those of the spec's Account Record (\<open>isActive\<close> true, the
  other flags false, the VIP dates and the reference id null). For the fields of the
  schema in \<^verbatim>\<open>server.js\<close> they are the defaults written there (\<open>hasPaid\<close>,
  \<open>isAdmin\<close>, \<open>isBlocked\<close>, \<open>needsPasswordChange\<close> false, no \<open>paymentDate\<close>,
  \<open>createdAt\<close> now). This is \<^verbatim>\<open>new User({ username, email, password })\<close>.
\<close>

definition new_User :: "env \<Rightarrow> store \<Rightarrow> string \<Rightarrow> string \<Rightarrow> string \<Rightarrow> user" where
  "new_User e db n m p =
     \<lparr>uid = fresh_oid (map uid (users db)), username = n, email = m, password = p,
      hasPaid = False, isAdmin = False, isBlocked = False, needsPasswordChange = False,
      paymentDate = None, createdAt = date_now e, isActive = True,
      vipStartDate = None, vipExpiryDate = None, transactionId = None\<rparr>"

text \<open>
  \<^verbatim>\<open>user.save()\<close> of a new document. \<open>username\<close> and \<open>email\<close> are unique
  (\<^verbatim>\<open>unique: true\<close>, \<^verbatim>\<open>server.js\<close> lines 88-89): the collection refuses a document
  whose username or e-mail another document has, and \<^verbatim>\<open>save()\<close> throws (\<open>None\<close>).
\<close>

definition insert_user :: "store \<Rightarrow> user \<Rightarrow> store option" where
  "insert_user db u =
     (if list_ex (\<lambda>x. username x = username u \<or> email x = email u) (users db) then None
      else Some (db\<lparr>users := users db @ [u]\<rparr>))"

text \<open>
  \<^verbatim>\<open>.select('-password')\<close> and \<^verbatim>\<open>res.json(user)\<close>: every field of the document but
  the password.
\<close>

definition user_json :: "user \<Rightarrow> json" where
  "user_json u = JObj
     [(''_id'', JId (uid u)), (''username'', JStr (username u)), (''email'', JStr (email u)),
      (''hasPaid'', JBool (hasPaid u)), (''isAdmin'', JBool (isAdmin u)),
      (''isBlocked'', JBool (isBlocked u)),
      (''needsPasswordChange'', JBool (needsPasswordChange u)),
      (''paymentDate'', jdate (paymentDate u)), (''createdAt'', JDate (createdAt u)),
      (''isActive'', JBool (isActive u)), (''vipStartDate'', jdate (vipStartDate u)),
      (''vipExpiryDate'', jdate (vipExpiryDate u)),
      (''transactionId'', jstr (transactionId u))]"

definition game_json :: "game \<Rightarrow> json" where
  "game_json g = JObj
     [(''_id'', JId (gid g)), (''homeTeam'', JStr (homeTeam g)),
      (''awayTeam'', JStr (awayTeam g)), (''league'', JStr (league g)),
      (''prediction'', JStr (prediction g)), (''odds'', JStr (odds g)),
      (''category'', JStr (category g)), (''status'', JStr (gstatus g)),
      (''isVip'', JBool (isVip g)),
      (''matchTime'', JDate (matchTime g)), (''result'', jstr (gresult g)),
      (''createdAt'', JDate (gcreatedAt g))]"

section \<open>server.js\<close>

subsection \<open>authenticateToken\<close>

text \<open>
  The token is the second piece of the \<^verbatim>\<open>authorization\<close> header. No token: 401.
  A token that \<^verbatim>\<open>jwt.verify\<close> refuses: 403. Otherwise \<^verbatim>\<open>req.user\<close> is the payload,
  of which \<open>userId\<close> is kept. The database is not read.
\<close>

definition header_token :: "string option \<Rightarrow> string option" where
  "header_token h =
     (case h of
        None \<Rightarrow> None
      | Some a \<Rightarrow>
          if a = [] then None
          else (case split_sp a of
                  _ # t # _ \<Rightarrow> if t = [] then None else Some t
                | _ \<Rightarrow> None))"

definition authenticateToken :: "env \<Rightarrow> string option \<Rightarrow> response + oid" where
  "authenticateToken e h =
     (case header_token h of
        None \<Rightarrow> Inl (401, message ''Access token required'')
      | Some t \<Rightarrow>
          (case jwt_verify e t of
             None \<Rightarrow> Inl (403, message ''Invalid or expired token'')
           | Some i \<Rightarrow> Inr i))"

text \<open>A route behind \<^verbatim>\<open>authenticateToken\<close>: the handler runs with \<^verbatim>\<open>req.user.userId\<close>.\<close>

definition srv_authenticated ::
  "env \<Rightarrow> string option \<Rightarrow> store \<Rightarrow> (oid \<Rightarrow> response \<times> store) \<Rightarrow> response \<times> store" where
  "srv_authenticated e h db handler =
     (case authenticateToken e h of Inl r \<Rightarrow> (r, db) | Inr i \<Rightarrow> handler i)"

subsection \<open>POST /api/auth/register and POST /api/auth/login\<close>

definition srv_user_summary :: "user \<Rightarrow> json" where
  "srv_user_summary u = JObj
     [(''id'', JId (uid u)), (''username'', JStr (username u)), (''email'', JStr (email u)),
      (''hasPaid'', JBool (hasPaid u)), (''isAdmin'', JBool (isAdmin u))]"

text \<open>
  The body's \<open>username\<close>, \<open>email\<close> and \<open>password\<close> are strings. \<^verbatim>\<open>user.save()\<close>
  validates the schema: a required string that is empty fails, which the handler's
  \<^verbatim>\<open>catch\<close> answers with 500, as it does a save that the collection refuses.
\<close>

definition srv_register :: "env \<Rightarrow> store \<Rightarrow> string \<Rightarrow> string \<Rightarrow> string \<Rightarrow> response \<times> store" where
  "srv_register e db n m p =
     (case findOne_email_or_username db m n of
        Some _ \<Rightarrow> ((400, message ''User already exists''), db)
      | None \<Rightarrow>
          let u = new_User e db n m (bcrypt_hash e p) in
          if n = [] \<or> m = [] \<or> password u = []
          then ((500, message ''Server error during registration''), db)
          else (case insert_user db u of
                  None \<Rightarrow> ((500, message ''Server error during registration''), db)
                | Some db' \<Rightarrow>
                    ((201, JObj [(''message'', JStr ''User created successfully''),
                                 (''token'', JStr (jwt_sign e (uid u))),
                                 (''user'', srv_user_summary u)]),
                     db')))"

text \<open>
  POST /api/auth/login. The body's \<open>username\<close> is a string; its \<open>password\<close> is a
  string, or \<open>None\<close> when it is missing or not a string. \<^verbatim>\<open>bcrypt.compare\<close> is
  reached for a known username only and throws on a password that is not a string;
  the \<^verbatim>\<open>catch\<close> answers 500.
\<close>

definition srv_login :: "env \<Rightarrow> store \<Rightarrow> string \<Rightarrow> string option \<Rightarrow> response" where
  "srv_login e db n p =
     (case findOne_username db n of
        None \<Rightarrow> (400, message ''Invalid credentials'')
      | Some u \<Rightarrow>
          (case p of
             None \<Rightarrow> (500, message ''Server error during login'')
           | Some s \<Rightarrow>
               if \<not> bcrypt_compare e s (password u)
               then (400, message ''Invalid credentials'')
               else (200, JObj [(''message'', JStr ''Login successful''),
                                (''token'', JStr (jwt_sign e (uid u))),
                                (''user'', srv_user_summary u)])))"

subsection \<open>PATCH /api/auth/change-password\<close>

definition srv_change_password_handler ::
  "env \<Rightarrow> store \<Rightarrow> string \<Rightarrow> string \<Rightarrow> oid \<Rightarrow> response \<times> store" where
  "srv_change_password_handler e db currentPassword newPassword i =
     (case findById db i of
        None \<Rightarrow> ((404, message ''User not found''), db)
      | Some u \<Rightarrow>
          if \<not> bcrypt_compare e currentPassword (password u)
          then ((400, message ''Current password is incorrect''), db)
          else ((200, message ''Password changed successfully''),
                save_user db (u\<lparr>password := bcrypt_hash e newPassword\<rparr>)))"

definition srv_change_password ::
  "env \<Rightarrow> string option \<Rightarrow> store \<Rightarrow> string \<Rightarrow> string \<Rightarrow> response \<times> store" where
  "srv_change_password e h db currentPassword newPassword =
     srv_authenticated e h db (srv_change_password_handler e db currentPassword newPassword)"

subsection \<open>PATCH /api/user/payment\<close>

text \<open>
  \<^verbatim>\<open>user.hasPaid = true\<close> on \<^verbatim>\<open>null\<close> (no document with the token's id) throws; the
  \<^verbatim>\<open>catch\<close> answers 500.
\<close>

definition srv_payment_handler :: "env \<Rightarrow> store \<Rightarrow> oid \<Rightarrow> response \<times> store" where
  "srv_payment_handler e db i =
     (case findById db i of
        None \<Rightarrow> ((500, message ''Server error''), db)
      | Some u \<Rightarrow>
          ((200, message ''Payment status updated successfully''),
           save_user db (u\<lparr>hasPaid := True, paymentDate := Some (date_now e)\<rparr>)))"

definition srv_payment :: "env \<Rightarrow> string option \<Rightarrow> store \<Rightarrow> response \<times> store" where
  "srv_payment e h db = srv_authenticated e h db (srv_payment_handler e db)"

subsection \<open>GET /api/auth/me\<close>

definition srv_me_handler :: "store \<Rightarrow> oid \<Rightarrow> response \<times> store" where
  "srv_me_handler db i =
     (case findById db i of
        None \<Rightarrow> ((404, message ''User not found''), db)
      | Some u \<Rightarrow> ((200, user_json u), db))"

definition srv_me :: "env \<Rightarrow> string option \<Rightarrow> store \<Rightarrow> response \<times> store" where
  "srv_me e h db = srv_authenticated e h db (srv_me_handler db)"

subsection \<open>GET /api/games\<close>

text \<open>
  \<^verbatim>\<open>.sort({ createdAt: -1 })\<close>: newest first. MongoDB leaves the order of documents
  with equal keys open; here it is the reverse of the stable ascending sort.
\<close>

definition sort_desc :: "('a \<Rightarrow> nat) \<Rightarrow> 'a list \<Rightarrow> 'a list" where
  "sort_desc k xs = rev (sort_key k xs)"

text \<open>
  \<^verbatim>\<open>user.hasPaid\<close> on \<^verbatim>\<open>null\<close> throws, and the \<^verbatim>\<open>catch\<close> answers 500. The handler reads
  \<open>hasPaid\<close> and \<open>isAdmin\<close> of the account and nothing else.
\<close>

definition srv_get_games_handler :: "store \<Rightarrow> oid \<Rightarrow> response \<times> store" where
  "srv_get_games_handler db i =
     (case findById db i of
        None \<Rightarrow> ((500, message ''Server error''), db)
      | Some u \<Rightarrow>
          if hasPaid u \<or> isAdmin u
          then ((200, JArr (map game_json (sort_desc gcreatedAt (games db)))), db)
          else ((200, JArr (map game_json
                   (sort_desc gcreatedAt (filter (\<lambda>g. isVip g = False) (games db))))), db))"

definition srv_get_games :: "env \<Rightarrow> string option \<Rightarrow> store \<Rightarrow> response \<times> store" where
  "srv_get_games e h db = srv_authenticated e h db (srv_get_games_handler db)"

subsection \<open>The admin routes of server.js\<close>

text \<open>
  Each of them starts with
  \<^verbatim>\<open>const user = await User.findById(req.user.userId); if (!user.isAdmin) return 403\<close>.
  Reading \<open>isAdmin\<close> of \<^verbatim>\<open>null\<close> throws a TypeError, which the \<^verbatim>\<open>catch\<close> of the
  route answers with 500 and its own message \<open>m500\<close>.
\<close>

definition srv_admin_only ::
  "store \<Rightarrow> oid \<Rightarrow> string \<Rightarrow> (user \<Rightarrow> response \<times> store) \<Rightarrow> response \<times> store" where
  "srv_admin_only db i m500 handler =
     (case findById db i of
        None \<Rightarrow> ((500, message m500), db)
      | Some a \<Rightarrow>
          if \<not> isAdmin a then ((403, message ''Admin access required''), db)
          else handler a)"

text \<open>
  POST /api/games: \<^verbatim>\<open>new Game(req.body)\<close> and \<^verbatim>\<open>save()\<close>, which validates the schema
  of lines 99-109: the required strings are present and not empty, \<open>gameTime\<close> is
  present, \<open>status\<close> is one of the enumeration. A failed validation is answered 500.
\<close>

record game_body =
  b_homeTeam :: "string option"
  b_awayTeam :: "string option"
  b_league :: "string option"
  b_prediction :: "string option"
  b_odds :: "string option"
  b_gameTime :: "date option"
  b_status :: "string option"
  b_isVip :: "bool option"

definition required_string :: "string option \<Rightarrow> bool" where
  "required_string s = (case s of None \<Rightarrow> False | Some t \<Rightarrow> t \<noteq> [])"

definition srv_new_Game :: "env \<Rightarrow> store \<Rightarrow> game_body \<Rightarrow> game option" where
  "srv_new_Game e db b =
     (if required_string (b_homeTeam b) \<and> required_string (b_awayTeam b)
         \<and> required_string (b_league b) \<and> required_string (b_prediction b)
         \<and> required_string (b_odds b) \<and> b_gameTime b \<noteq> None
         \<and> (case b_status b of None \<Rightarrow> True
             | Some s \<Rightarrow> s \<in> set [''pending'', ''won'', ''lost''])
      then Some \<lparr>gid = fresh_oid (map gid (games db)),
                 homeTeam = the (b_homeTeam b), awayTeam = the (b_awayTeam b),
                 league = the (b_league b), prediction = the (b_prediction b),
                 odds = the (b_odds b), category = [],
                 gstatus = (case b_status b of None \<Rightarrow> ''pending'' | Some s \<Rightarrow> s),
                 isVip = (case b_isVip b of None \<Rightarrow> False | Some v \<Rightarrow> v),
                 matchTime = the (b_gameTime b), gresult = None,
                 gcreatedAt = date_now e\<rparr>
      else None)"

definition srv_create_game_handler ::
  "env \<Rightarrow> store \<Rightarrow> game_body \<Rightarrow> oid \<Rightarrow> response \<times> store" where
  "srv_create_game_handler e db b i =
     srv_admin_only db i ''Server error''
       (\<lambda>_. case srv_new_Game e db b of
              None \<Rightarrow> ((500, message ''Server error''), db)
            | Some g \<Rightarrow> ((201, game_json g), db\<lparr>games := games db @ [g]\<rparr>))"

text \<open>DELETE /api/games/:id answers 200 whether or not a game had the id.\<close>

definition srv_delete_game_handler :: "store \<Rightarrow> oid \<Rightarrow> oid \<Rightarrow> response \<times> store" where
  "srv_delete_game_handler db g i =
     srv_admin_only db i ''Server error''
       (\<lambda>_. ((200, message ''Game deleted successfully''),
             db\<lparr>games := delete_first (\<lambda>x. gid x = g) (games db)\<rparr>))"

text \<open>
  PATCH /api/games/:id/result: after the admin check the handler logs \<^verbatim>\<open>result\<close>
  (line 408) before the \<^verbatim>\<open>const { result } = req.body\<close> of the same block (line 411):
  a ReferenceError, answered 500 by the \<^verbatim>\<open>catch\<close>. The update is never reached.
\<close>

definition srv_update_result_handler ::
  "store \<Rightarrow> oid \<Rightarrow> string option \<Rightarrow> oid \<Rightarrow> response \<times> store" where
  "srv_update_result_handler db g r i =
     srv_admin_only db i ''Server error'' (\<lambda>_. ((500, message ''Server error''), db))"

text \<open>GET /api/admin/users\<close>

definition srv_get_users_handler :: "store \<Rightarrow> oid \<Rightarrow> response \<times> store" where
  "srv_get_users_handler db i =
     srv_admin_only db i ''Server error fetching users''
       (\<lambda>_. ((200, JArr (map user_json (sort_desc createdAt (users db)))), db))"

text \<open>
  PATCH /api/admin/users/:id/block, the first of the two registrations (lines 496-519;
  the second, lines 590-615, is never reached). The body's \<open>blocked\<close> is a boolean
  (\<^verbatim>\<open>// true or false\<close>).
\<close>

definition srv_block_handler :: "store \<Rightarrow> oid \<Rightarrow> bool \<Rightarrow> oid \<Rightarrow> response \<times> store" where
  "srv_block_handler db t blocked i =
     srv_admin_only db i ''Server error''
       (\<lambda>_. case findByIdAndUpdate db t (\<lambda>u. u\<lparr>isBlocked := blocked\<rparr>) of
              (None, _) \<Rightarrow> ((404, message ''User not found''), db)
            | (Some u, db') \<Rightarrow>
                ((200, JObj [(''message'', JStr (''User '' @ (if blocked then ''blocked''
                                else ''unblocked'') @ '' successfully'')),
                             (''user'', user_json u)]), db'))"

text \<open>
  PATCH /api/admin/users/:id/vip. The body's \<open>hasPaid\<close> is a boolean
  (\<^verbatim>\<open>// true or false\<close>). The update writes \<open>hasPaid\<close> and \<open>paymentDate\<close>.
\<close>

definition srv_vip_handler :: "env \<Rightarrow> store \<Rightarrow> oid \<Rightarrow> bool \<Rightarrow> oid \<Rightarrow> response \<times> store" where
  "srv_vip_handler e db t paid i =
     srv_admin_only db i ''Server error''
       (\<lambda>_. case findByIdAndUpdate db t
                   (\<lambda>u. u\<lparr>hasPaid := paid,
                          paymentDate := (if paid then Some (date_now e) else None)\<rparr>) of
              (None, _) \<Rightarrow> ((404, message ''User not found''), db)
            | (Some u, db') \<Rightarrow>
                ((200, JObj [(''message'', JStr (''VIP access '' @ (if paid then ''granted''
                                else ''removed'') @ '' successfully'')),
                             (''user'', user_json u)]), db'))"

text \<open>
  PATCH /api/admin/users/:id/generate-temp-password.
  \<^verbatim>\<open>Math.floor(100000 + Math.random() * 900000).toString()\<close>
\<close>

definition tempPassword :: "env \<Rightarrow> string" where
  "tempPassword e = toString (nat \<lfloor>100000 + math_random e * 900000\<rfloor>)"

definition srv_temp_password_handler :: "env \<Rightarrow> store \<Rightarrow> oid \<Rightarrow> oid \<Rightarrow> response \<times> store" where
  "srv_temp_password_handler e db t i =
     srv_admin_only db i
       ''Server error: Cannot read properties of null (reading 'isAdmin')''
       (\<lambda>_. let hashedPassword = bcrypt_hash e (tempPassword e) in
            case findByIdAndUpdate db t
                   (\<lambda>u. u\<lparr>password := hashedPassword, needsPasswordChange := True\<rparr>) of
              (None, _) \<Rightarrow> ((404, message ''User not found''), db)
            | (Some u, db') \<Rightarrow>
                ((200, JObj [(''message'', JStr ''Temporary password generated successfully''),
                             (''tempPassword'', JStr (tempPassword e)),
                             (''user'', user_json u)]), db'))"

definition srv_temp_password ::
  "env \<Rightarrow> string option \<Rightarrow> store \<Rightarrow> oid \<Rightarrow> response \<times> store" where
  "srv_temp_password e h db t = srv_authenticated e h db (srv_temp_password_handler e db t)"

subsection \<open>DELETE /api/posts/:id\<close>

text \<open>
  The post is looked up first (404 when there is none); then
  \<^verbatim>\<open>post.author.toString() !== req.user.userId && !user.isAdmin\<close> answers 403. The
  author of the post deletes it without being an admin; for another caller
  \<^verbatim>\<open>user.isAdmin\<close> is read, which throws when \<^verbatim>\<open>user\<close> is \<^verbatim>\<open>null\<close>.
\<close>

definition srv_delete_post_handler :: "store \<Rightarrow> oid \<Rightarrow> oid \<Rightarrow> response \<times> store" where
  "srv_delete_post_handler db p i =
     (case find (\<lambda>x. pid x = p) (posts db) of
        None \<Rightarrow> ((404, message ''Post not found''), db)
      | Some x \<Rightarrow>
          let deleted = ((200, message ''Post deleted successfully''),
                         db\<lparr>posts := delete_first (\<lambda>y. pid y = p) (posts db)\<rparr>) in
          if pauthor x \<noteq> i
          then (case findById db i of
                  None \<Rightarrow> ((500, message ''Server error''), db)
                | Some u \<Rightarrow>
                    if \<not> isAdmin u then ((403, message ''Not authorized''), db) else deleted)
          else deleted)"

definition srv_delete_post :: "env \<Rightarrow> string option \<Rightarrow> store \<Rightarrow> oid \<Rightarrow> response \<times> store" where
  "srv_delete_post e h db p = srv_authenticated e h db (srv_delete_post_handler db p)"

section \<open>The router-based server\<close>

subsection \<open>The middlewares auth and isAdmin, and the User model\<close>

text \<open>
  Modelled from the spec: \<^verbatim>\<open>middleware/auth.js\<close> is absent. The spec's Token Issuer
  verifies the bearer token, already extracted from the request, by signature and
  expiry only, and yields the account id (\<^verbatim>\<open>req.userId\<close>) or an authentication
  failure, taken here as the status 401.
\<close>

definition auth :: "env \<Rightarrow> string option \<Rightarrow> response + oid" where
  "auth e t =
     (case t of
        None \<Rightarrow> Inl (401, message ''authentication failed'')
      | Some tok \<Rightarrow>
          (case jwt_verify e tok of
             None \<Rightarrow> Inl (401, message ''authentication failed'')
           | Some i \<Rightarrow> Inr i))"

text \<open>\<^verbatim>\<open>middleware/isAdmin.js\<close>: \<^verbatim>\<open>if (!user || !user.isAdmin) return 403\<close>.\<close>

definition isAdmin_middleware :: "store \<Rightarrow> oid \<Rightarrow> response option" where
  "isAdmin_middleware db i =
     (case findById db i of
        None \<Rightarrow> Some (403, message ''Access denied. Admin only.'')
      | Some u \<Rightarrow>
          if \<not> isAdmin u then Some (403, message ''Access denied. Admin only.'')
          else None)"

text \<open>A route registered with \<^verbatim>\<open>auth\<close>, and one registered with \<^verbatim>\<open>auth, isAdmin\<close>.\<close>

definition with_auth ::
  "env \<Rightarrow> string option \<Rightarrow> store \<Rightarrow> (oid \<Rightarrow> response \<times> store) \<Rightarrow> response \<times> store" where
  "with_auth e t db handler =
     (case auth e t of Inl r \<Rightarrow> (r, db) | Inr i \<Rightarrow> handler i)"

definition with_auth_isAdmin ::
  "env \<Rightarrow> string option \<Rightarrow> store \<Rightarrow> (oid \<Rightarrow> response \<times> store) \<Rightarrow> response \<times> store" where
  "with_auth_isAdmin e t db handler =
     with_auth e t db
       (\<lambda>i. case isAdmin_middleware db i of Some r \<Rightarrow> (r, db) | None \<Rightarrow> handler i)"

text \<open>
  Modelled from the spec: \<^verbatim>\<open>models/User.js\<close> is absent. Its pre-save hook hashes a
  password that was set (\<^verbatim>\<open>// will be hashed automatically by pre-save hook\<close>) and
  \<^verbatim>\<open>user.comparePassword\<close> verifies a plaintext against the stored hash: the
  \<open>hash\<close> and \<open>verify\<close> of the spec's Credential Store, here those of bcrypt.
  As \<^verbatim>\<open>bcrypt.compare\<close>, \<^verbatim>\<open>comparePassword\<close> is taken to throw on a plaintext
  that is not a string. What the model validates on \<^verbatim>\<open>save()\<close> beyond the unique
  username and e-mail is not known and not modelled.
\<close>

definition pre_save :: "env \<Rightarrow> user \<Rightarrow> user" where
  "pre_save e u = u\<lparr>password := bcrypt_hash e (password u)\<rparr>"

definition comparePassword :: "env \<Rightarrow> user \<Rightarrow> string \<Rightarrow> bool" where
  "comparePassword e u p = bcrypt_compare e p (password u)"

subsection \<open>routes/auth: register, login, me, change-password\<close>

definition auth_user_summary :: "user \<Rightarrow> json" where
  "auth_user_summary u = JObj
     [(''id'', JId (uid u)), (''username'', JStr (username u)), (''email'', JStr (email u)),
      (''isAdmin'', JBool (isAdmin u)), (''hasPaid'', JBool (hasPaid u)),
      (''vipExpiryDate'', jdate (vipExpiryDate u)), (''isActive'', JBool (isActive u))]"

definition auth_register :: "env \<Rightarrow> store \<Rightarrow> string \<Rightarrow> string \<Rightarrow> string \<Rightarrow> response \<times> store" where
  "auth_register e db n m p =
     (case findOne_email_or_username db m n of
        Some _ \<Rightarrow> ((400, message ''User already exists''), db)
      | None \<Rightarrow>
          let u = pre_save e ((new_User e db n m p)\<lparr>isActive := True\<rparr>) in
          (case insert_user db u of
             None \<Rightarrow> ((500, message ''Server error''), db)
           | Some db' \<Rightarrow>
               ((201, JObj [(''token'', JStr (jwt_sign e (uid u))),
                            (''user'', auth_user_summary u)]),
                db')))"

text \<open>
  POST /login. The body's \<open>username\<close> is a string; its \<open>password\<close> is a string, or
  \<open>None\<close> when it is missing or not a string, on which \<^verbatim>\<open>comparePassword\<close> throws
  and the \<^verbatim>\<open>catch\<close> answers 500.
\<close>

definition auth_login :: "env \<Rightarrow> store \<Rightarrow> string \<Rightarrow> string option \<Rightarrow> response" where
  "auth_login e db n p =
     (case findOne_username db n of
        None \<Rightarrow> (400, message ''Invalid credentials'')
      | Some u \<Rightarrow>
          if \<not> isActive u
          then (403, message ''Account has been deactivated. Contact support.'')
          else (case p of
                  None \<Rightarrow> (500, message ''Server error'')
                | Some s \<Rightarrow>
                    if \<not> comparePassword e u s
                    then (400, message ''Invalid credentials'')
                    else (200, JObj [(''token'', JStr (jwt_sign e (uid u))),
                                     (''user'', auth_user_summary u)])))"

text \<open>
  GET /me. (In \<^verbatim>\<open>unnamed/part_000\<close> the registration of the change-password route
  stands inside this handler, lines 131-169; the registration of routes is not
  modelled, each handler is taken as registered.)
\<close>

definition auth_me_handler :: "store \<Rightarrow> oid \<Rightarrow> response \<times> store" where
  "auth_me_handler db i =
     (case findById db i of
        None \<Rightarrow> ((403, message ''Account deactivated''), db)
      | Some u \<Rightarrow>
          if \<not> isActive u then ((403, message ''Account deactivated''), db)
          else ((200, JObj [(''id'', JId (uid u)), (''username'', JStr (username u)),
                            (''email'', JStr (email u)), (''isAdmin'', JBool (isAdmin u)),
                            (''hasPaid'', JBool (hasPaid u)),
                            (''isActive'', JBool (isActive u)),
                            (''vipExpiryDate'', jdate (vipExpiryDate u)),
                            (''createdAt'', JDate (createdAt u))]), db))"

definition auth_me :: "env \<Rightarrow> string option \<Rightarrow> store \<Rightarrow> response \<times> store" where
  "auth_me e t db = with_auth e t db (auth_me_handler db)"

text \<open>
  PATCH /change-password. A field of the body is a string or missing; \<^verbatim>\<open>!s\<close> holds of
  a missing and of an empty string. \<^verbatim>\<open>newPassword.length\<close> counts the code units of
  the string, which are the characters of the model (strings over code units below
  256).
\<close>

definition falsy :: "string option \<Rightarrow> bool" where
  "falsy s = (case s of None \<Rightarrow> True | Some t \<Rightarrow> t = [])"

definition auth_change_password_handler ::
  "env \<Rightarrow> store \<Rightarrow> string option \<Rightarrow> string option \<Rightarrow> oid \<Rightarrow> response \<times> store" where
  "auth_change_password_handler e db currentPassword newPassword i =
     (if falsy currentPassword \<or> falsy newPassword
      then ((400, message ''Current password and new password are required''), db)
      else if length (the newPassword) < 6
      then ((400, message ''New password must be at least 6 characters''), db)
      else (case findById db i of
              None \<Rightarrow> ((404, message ''User not found''), db)
            | Some u \<Rightarrow>
                if \<not> comparePassword e u (the currentPassword)
                then ((400, message ''Current password is incorrect''), db)
                else ((200, message ''Password changed successfully''),
                      save_user db (pre_save e (u\<lparr>password := the newPassword\<rparr>)))))"

definition auth_change_password ::
  "env \<Rightarrow> string option \<Rightarrow> store \<Rightarrow> string option \<Rightarrow> string option \<Rightarrow> response \<times> store" where
  "auth_change_password e t db currentPassword newPassword =
     with_auth e t db (auth_change_password_handler e db currentPassword newPassword)"

subsection \<open>routes/admin: users, vip, stats\<close>

definition admin_users_handler :: "store \<Rightarrow> oid \<Rightarrow> response \<times> store" where
  "admin_users_handler db i =
     ((200, JArr (map user_json (sort_desc createdAt (users db)))), db)"

text \<open>
  PATCH /users/:userId/vip. The body's \<open>hasPaid\<close> is a boolean. \<^verbatim>\<open>new Date()\<close> and
  the two \<^verbatim>\<open>Date.now()\<close> of the handler are one instant. 30 days are
  \<^verbatim>\<open>30 * 24 * 60 * 60 * 1000\<close> milliseconds.
\<close>

definition admin_vip_update :: "env \<Rightarrow> bool \<Rightarrow> user \<Rightarrow> user" where
  "admin_vip_update e paid u =
     (if paid
      then u\<lparr>hasPaid := paid, vipStartDate := Some (date_now e),
             vipExpiryDate := Some (date_now e + 30 * 24 * 60 * 60 * 1000),
             transactionId := Some (''ADMIN_GRANTED_'' @ toString (date_now e))\<rparr>
      else u\<lparr>hasPaid := paid, vipStartDate := None, vipExpiryDate := None,
             transactionId := None\<rparr>)"

definition admin_vip_handler :: "env \<Rightarrow> store \<Rightarrow> oid \<Rightarrow> bool \<Rightarrow> oid \<Rightarrow> response \<times> store" where
  "admin_vip_handler e db t paid i =
     (case findByIdAndUpdate db t (admin_vip_update e paid) of
        (None, _) \<Rightarrow> ((404, message ''User not found''), db)
      | (Some u, db') \<Rightarrow>
          ((200, JObj [(''message'', JStr (''VIP status '' @ (if paid then ''granted''
                          else ''removed'') @ '' successfully'')),
                       (''user'', user_json u)]), db'))"

definition admin_vip ::
  "env \<Rightarrow> string option \<Rightarrow> store \<Rightarrow> oid \<Rightarrow> bool \<Rightarrow> response \<times> store" where
  "admin_vip e t db target paid = with_auth_isAdmin e t db (admin_vip_handler e db target paid)"

text \<open>
  GET /stats. \<open>conversionRate\<close>, a floating-point number formatted by
  \<^verbatim>\<open>toFixed(1)\<close>, is left out of the body.
\<close>

definition admin_stats_handler :: "store \<Rightarrow> oid \<Rightarrow> response \<times> store" where
  "admin_stats_handler db i =
     (let totalUsers = length (users db);
          vipUsers = length (filter hasPaid (users db))
      in ((200, JObj [(''totalUsers'', JInt totalUsers), (''vipUsers'', JInt vipUsers),
                      (''freeUsers'', JInt (totalUsers - vipUsers))]), db))"

subsection \<open>routes/games.js\<close>

text \<open>
  GET /all (\<^verbatim>\<open>// Get all games (for admin)\<close>) is registered with \<^verbatim>\<open>auth\<close> only and
  sends every game, most recent match first. The account is not read.
\<close>

definition games_all_handler :: "store \<Rightarrow> oid \<Rightarrow> response \<times> store" where
  "games_all_handler db i = ((200, JArr (map game_json (sort_desc matchTime (games db)))), db)"

definition games_all :: "env \<Rightarrow> string option \<Rightarrow> store \<Rightarrow> response \<times> store" where
  "games_all e t db = with_auth e t db (games_all_handler db)"

text \<open>
  POST /. A string field of the body is a string or missing; \<open>odds\<close> is a number or
  missing (\<^verbatim>\<open>!odds\<close> holds of a missing one and of 0, \<^verbatim>\<open>parseFloat\<close> of a number is
  the number). After the handler's own checks \<^verbatim>\<open>game.save()\<close> validates the schema of
  \<^verbatim>\<open>server.js\<close> lines 657-700, in which \<open>postedBy\<close> is required: the handler never
  sets it, so the save fails with a ValidationError, which the \<^verbatim>\<open>catch\<close> answers with
  400 (the array \<open>errors\<close> of Mongoose's messages is left out of the body).
\<close>

record new_game_body =
  n_homeTeam :: "string option"
  n_awayTeam :: "string option"
  n_prediction :: "string option"
  n_odds :: "rat option"
  n_category :: "string option"
  n_matchTime :: "string option"

definition validCategories :: "string list" where
  "validCategories = [''All Tips'', ''Sure Tips'', ''Over/Under Tips'', ''Bonus'', ''VIP Tips'']"

definition games_create_handler :: "store \<Rightarrow> new_game_body \<Rightarrow> oid \<Rightarrow> response \<times> store" where
  "games_create_handler db b i =
     (if falsy (n_homeTeam b) \<or> falsy (n_awayTeam b) \<or> falsy (n_prediction b)
         \<or> (n_odds b = None \<or> n_odds b = Some 0) \<or> falsy (n_category b)
         \<or> falsy (n_matchTime b)
      then ((400, JObj [(''message'', JStr ''All fields are required''),
                        (''required'', JArr (map JStr [''homeTeam'', ''awayTeam'',
                            ''prediction'', ''odds'', ''category'', ''matchTime'']))]), db)
      else if the (n_odds b) \<le> 1
      then ((400, message ''Odds must be greater than 1.0''), db)
      else if the (n_category b) \<notin> set validCategories
      then ((400, JObj [(''message'', JStr ''Invalid category''),
                        (''validCategories'', JArr (map JStr validCategories))]), db)
      else ((400, message ''Validation error''), db))"

text \<open>PATCH /:id/result\<close>

definition games_result_handler ::
  "store \<Rightarrow> oid \<Rightarrow> string option \<Rightarrow> oid \<Rightarrow> response \<times> store" where
  \<open>games_result_handler db g r i =
     (if r \<noteq> Some ''win'' \<and> r \<noteq> Some ''loss''
      then ((400, message (''Invalid result. Must be '' @ [CHR 0x22] @ ''win'' @ [CHR 0x22]
                             @ '' or '' @ [CHR 0x22] @ ''loss'' @ [CHR 0x22])), db)
      else (case find (\<lambda>x. gid x = g) (games db) of
              None \<Rightarrow> ((404, message ''Game not found''), db)
            | Some x \<Rightarrow>
                ((200, JObj [(''message'', JStr (''Game result updated to '' @ the r)),
                             (''game'', game_json (x\<lparr>gresult := r\<rparr>))]),
                 db\<lparr>games := update_first (\<lambda>y. gid y = g) (\<lambda>y. y\<lparr>gresult := r\<rparr>)
                                (games db)\<rparr>)))\<close>

text \<open>DELETE /:id\<close>

definition games_delete_handler :: "store \<Rightarrow> oid \<Rightarrow> oid \<Rightarrow> response \<times> store" where
  "games_delete_handler db g i =
     (case find (\<lambda>x. gid x = g) (games db) of
        None \<Rightarrow> ((404, message ''Game not found''), db)
      | Some x \<Rightarrow>
          ((200, JObj [(''message'', JStr ''Game deleted successfully''),
                       (''deletedGame'', JObj [(''id'', JId (gid x)),
                           (''match'', JStr (homeTeam x @ '' vs '' @ awayTeam x)),
                           (''category'', JStr (category x))])]),
           db\<lparr>games := delete_first (\<lambda>y. gid y = g) (games db)\<rparr>))"

text \<open>
  GET /stats/summary: the counts. \<open>winRate\<close> (a floating-point number) and the
  aggregation by category are left out of the body.
\<close>

definition games_stats_handler :: "store \<Rightarrow> oid \<Rightarrow> response \<times> store" where
  "games_stats_handler db i =
     (let totalGames = length (games db);
          completedGames = length (filter (\<lambda>g. gresult g \<noteq> None) (games db));
          wonGames = length (filter (\<lambda>g. gresult g = Some ''win'') (games db));
          lostGames = length (filter (\<lambda>g. gresult g = Some ''loss'') (games db))
      in ((200, JObj [(''totalGames'', JInt totalGames),
                      (''completedGames'', JInt completedGames),
                      (''pendingGames'', JInt (totalGames - completedGames)),
                      (''wonGames'', JInt wonGames), (''lostGames'', JInt lostGames)]), db))"

subsection \<open>routes/community.js: DELETE /posts/:postId\<close>

text \<open>
  Registered with \<^verbatim>\<open>auth\<close>; the handler itself reads \<^verbatim>\<open>user.isAdmin\<close> (a TypeError
  and 500 when \<^verbatim>\<open>user\<close> is \<^verbatim>\<open>null\<close>) before it looks for the post.
\<close>

definition community_delete_post_handler :: "store \<Rightarrow> oid \<Rightarrow> oid \<Rightarrow> response \<times> store" where
  "community_delete_post_handler db p i =
     (case findById db i of
        None \<Rightarrow> ((500, message ''Error deleting post''), db)
      | Some u \<Rightarrow>
          if \<not> isAdmin u then ((403, message ''Access denied. Admin only.''), db)
          else (case find (\<lambda>x. pid x = p) (posts db) of
                  None \<Rightarrow> ((404, message ''Post not found''), db)
                | Some _ \<Rightarrow>
                    ((200, message ''Post deleted successfully''),
                     db\<lparr>posts := delete_first (\<lambda>y. pid y = p) (posts db)\<rparr>)))"

subsection \<open>Startup (unnamed/part_002) and the script createAdmin.js\<close>

text \<open>
  \<open>createDefaultAdmin\<close> runs once when the connection to the database opens. The
  password \<^verbatim>\<open>'admin123'\<close> is hashed by the pre-save hook. Only the username is
  looked up before \<^verbatim>\<open>admin.save()\<close>; a save that the collection refuses (the e-mail
  is taken) throws, the \<^verbatim>\<open>catch\<close> logs the error, and the store stays as it is.
\<close>

definition createDefaultAdmin :: "env \<Rightarrow> store \<Rightarrow> store" where
  "createDefaultAdmin e db =
     (case findOne_username db ''admin'' of
        None \<Rightarrow>
          (case insert_user db
                  (pre_save e ((new_User e db ''admin'' ''admin@betatips.com.ng'' ''admin123'')
                     \<lparr>isAdmin := True, hasPaid := True, isActive := True\<rparr>)) of
             None \<Rightarrow> db
           | Some db' \<Rightarrow> db')
      | Some adminExists \<Rightarrow> db)"

text \<open>
  \<^verbatim>\<open>createAdmin.js\<close> is a script of its own, run by hand: it deletes an account named
  \<open>admin\<close> and creates a new one (when the save is refused the script logs the error
  and exits, the old account deleted).
\<close>

definition createAdmin :: "env \<Rightarrow> store \<Rightarrow> store" where
  "createAdmin e db =
     (let db1 = (case findOne_username db ''admin'' of
                   None \<Rightarrow> db
                 | Some existingAdmin \<Rightarrow>
                     db\<lparr>users := delete_first (\<lambda>u. username u = ''admin'') (users db)\<rparr>)
      in case insert_user db1
                (pre_save e ((new_User e db1 ''admin'' ''admin@example.com'' ''admin123'')
                   \<lparr>isAdmin := True, hasPaid := True\<rparr>)) of
           None \<Rightarrow> db1
         | Some db' \<Rightarrow> db')"

section \<open>The admin-only operations as requests\<close>

text \<open>
  The admin-only routes of \<^verbatim>\<open>server.js\<close>, each behind \<^verbatim>\<open>authenticateToken\<close>, with the
  payload of the request: create, delete and update a game, list the users, block or
  unblock, grant or revoke VIP, issue a temporary password.
\<close>

datatype srv_admin_request =
    Srv_create_game game_body
  | Srv_delete_game oid
  | Srv_update_result oid "string option"
  | Srv_get_users
  | Srv_block oid bool
  | Srv_vip oid bool
  | Srv_temp_password oid

definition srv_admin_route ::
  "env \<Rightarrow> string option \<Rightarrow> store \<Rightarrow> srv_admin_request \<Rightarrow> response \<times> store" where
  "srv_admin_route e h db req =
     srv_authenticated e h db
       (case req of
          Srv_create_game b \<Rightarrow> srv_create_game_handler e db b
        | Srv_delete_game g \<Rightarrow> srv_delete_game_handler db g
        | Srv_update_result g r \<Rightarrow> srv_update_result_handler db g r
        | Srv_get_users \<Rightarrow> srv_get_users_handler db
        | Srv_block t b \<Rightarrow> srv_block_handler db t b
        | Srv_vip t b \<Rightarrow> srv_vip_handler e db t b
        | Srv_temp_password t \<Rightarrow> srv_temp_password_handler e db t)"

text \<open>
  The admin-only routes of the router-based server: those registered with
  \<^verbatim>\<open>auth, isAdmin\<close> in \<^verbatim>\<open>routes/games.js\<close> and \<^verbatim>\<open>routes/admin\<close>, and the deletion
  of a post in \<^verbatim>\<open>routes/community.js\<close>, registered with \<^verbatim>\<open>auth\<close> and checking
  \<open>isAdmin\<close> itself.
\<close>

datatype router_admin_request =
    Games_create new_game_body
  | Games_result oid "string option"
  | Games_delete oid
  | Games_stats
  | Admin_users
  | Admin_vip oid bool
  | Admin_stats
  | Community_delete_post oid

definition router_admin_route ::
  "env \<Rightarrow> string option \<Rightarrow> store \<Rightarrow> router_admin_request \<Rightarrow> response \<times> store" where
  "router_admin_route e t db req =
     (case req of
        Games_create b \<Rightarrow> with_auth_isAdmin e t db (games_create_handler db b)
      | Games_result g r \<Rightarrow> with_auth_isAdmin e t db (games_result_handler db g r)
      | Games_delete g \<Rightarrow> with_auth_isAdmin e t db (games_delete_handler db g)
      | Games_stats \<Rightarrow> with_auth_isAdmin e t db (games_stats_handler db)
      | Admin_users \<Rightarrow> with_auth_isAdmin e t db (admin_users_handler db)
      | Admin_vip u b \<Rightarrow> with_auth_isAdmin e t db (admin_vip_handler e db u b)
      | Admin_stats \<Rightarrow> with_auth_isAdmin e t db (admin_stats_handler db)
      | Community_delete_post p \<Rightarrow> with_auth e t db (community_delete_post_handler db p))"

section \<open>The VIP invariant of an account\<close>

text \<open>
  \<open>hasPaid\<close> implies a VIP expiry date, and not \<open>hasPaid\<close> implies that both VIP dates
  are null.
\<close>

definition vip_invariant :: "user \<Rightarrow> bool" where
  "vip_invariant u =
     ((hasPaid u \<longrightarrow> vipExpiryDate u \<noteq> None)
      \<and> (\<not> hasPaid u \<longrightarrow> vipStartDate u = None \<and> vipExpiryDate u = None))"

definition empty_store :: store where
  "empty_store = \<lparr>users = [], games = [], posts = []\<rparr>"

section \<open>An example environment and store\<close>

text \<open>
  A concrete environment (a toy hash and toy tokens: the token of the account \<open>i\<close> is
  \<open>i + 1\<close> letters \<open>t\<close>) and a store with four accounts, two games and a post, on
  which the theorems below are instantiated.
\<close>

definition env0 :: env where
  "env0 = \<lparr>date_now = 1700000000000, math_random = 1 / 2,
           bcrypt_hash = (\<lambda>p. ''$2a$12$'' @ rev p),
           bcrypt_compare = (\<lambda>p h. h = ''$2a$12$'' @ rev p),
           jwt_sign = (\<lambda>i. replicate (Suc i) CHR ''t''),
           jwt_verify = (\<lambda>t. if t \<noteq> [] \<and> list_all (\<lambda>c. c = CHR ''t'') t
                               then Some (length t - 1) else None)\<rparr>"

definition alice :: user where
  "alice = \<lparr>uid = 1, username = ''alice'', email = ''alice@x.com'',
            password = ''$2a$12$1terces'', hasPaid = False, isAdmin = False,
            isBlocked = False, needsPasswordChange = False, paymentDate = None,
            createdAt = 1600000000000, isActive = True, vipStartDate = None,
            vipExpiryDate = None, transactionId = None\<rparr>"

definition boss :: user where
  "boss = \<lparr>uid = 2, username = ''boss'', email = ''boss@x.com'',
           password = ''$2a$12$2terces'', hasPaid = False, isAdmin = True,
           isBlocked = False, needsPasswordChange = False, paymentDate = None,
           createdAt = 1600000000001, isActive = True, vipStartDate = None,
           vipExpiryDate = None, transactionId = None\<rparr>"

definition bob :: user where
  "bob = \<lparr>uid = 3, username = ''bob'', email = ''bob@x.com'',
          password = ''$2a$12$3terces'', hasPaid = False, isAdmin = False,
          isBlocked = False, needsPasswordChange = False, paymentDate = None,
          createdAt = 1600000000002, isActive = False, vipStartDate = None,
          vipExpiryDate = None, transactionId = None\<rparr>"

definition carol :: user where
  "carol = \<lparr>uid = 4, username = ''carol'', email = ''carol@x.com'',
            password = ''$2a$12$4terces'', hasPaid = False, isAdmin = False,
            isBlocked = True, needsPasswordChange = False, paymentDate = None,
            createdAt = 1600000000003, isActive = True, vipStartDate = None,
            vipExpiryDate = None, transactionId = None\<rparr>"

definition free_game :: game where
  "free_game = \<lparr>gid = 1, homeTeam = ''Ajax'', awayTeam = ''PSV'', league = ''Eredivisie'',
                prediction = ''1'', odds = ''1.80'', category = ''All Tips'',
                gstatus = ''pending'', isVip = False, matchTime = 1700000100000,
                gresult = None, gcreatedAt = 1699999000000\<rparr>"

definition vip_game :: game where
  "vip_game = \<lparr>gid = 2, homeTeam = ''Porto'', awayTeam = ''Braga'', league = ''Liga'',
               prediction = ''X'', odds = ''3.10'', category = ''VIP Tips'',
               gstatus = ''pending'', isVip = True, matchTime = 1700000200000,
               gresult = None, gcreatedAt = 1699999000001\<rparr>"

definition db0 :: store where
  "db0 = \<lparr>users = [alice, boss, bob, carol], games = [free_game, vip_game],
          posts = [\<lparr>pid = 1, pauthor = 1, pcontent = ''hello''\<rparr>]\<rparr>"

section \<open>Lemmas on the queries\<close>

lemma find_update_first_same:
  "(\<And>x. P x \<Longrightarrow> P (f x)) \<Longrightarrow> find P (update_first P f xs) = map_option f (find P xs)"
  by (induction xs) auto

lemma find_update_first_other:
  "(\<And>x. P x \<Longrightarrow> \<not> Q x \<and> \<not> Q (f x)) \<Longrightarrow> find Q (update_first P f xs) = find Q xs"
  by (induction xs) auto

lemma findById_uid: "findById db i = Some u \<Longrightarrow> uid u = i"
  by (auto simp: findById_def dest: find_Some_iff[THEN iffD1])

lemma findById_save_user_same:
  "findById db (uid u) \<noteq> None \<Longrightarrow> findById (save_user db u) (uid u) = Some u"
  by (auto simp: findById_def save_user_def find_update_first_same)

lemma findById_save_user_other:
  "j \<noteq> uid u \<Longrightarrow> findById (save_user db u) j = findById db j"
  unfolding findById_def save_user_def
  by (simp add: find_update_first_other[where P="\<lambda>x. uid x = uid u"])

lemma token_alice: "authenticateToken env0 (Some ''Bearer tt'') = Inr 1"
  by (simp add: authenticateToken_def header_token_def env0_def)

lemma findById_alice: "findById db0 1 = Some alice"
  by (simp add: findById_def db0_def alice_def)

lemma token_carol: "authenticateToken env0 (Some ''Bearer ttttt'') = Inr 4"
  by (simp add: authenticateToken_def header_token_def env0_def)

lemma findById_carol: "findById db0 4 = Some carol"
  by (simp add: findById_def db0_def alice_def boss_def bob_def carol_def)

section \<open>The payment-status update\<close>

text \<open>
  C10. For every authenticated caller whose account exists, admin or not, PATCH
  /api/user/payment answers 200 and stores the caller's own document with
  \<open>hasPaid\<close> true and \<open>paymentDate\<close> the current time. The handler checks neither
  \<open>isAdmin\<close> nor any proof of payment (it takes no input but the token), it changes no
  other field of the document (so no VIP expiry date is set) and no other account;
  after it GET /api/games sends the caller every game, the VIP ones included.
\<close>

theorem payment_marks_caller_paid:
  assumes "authenticateToken e h = Inr i" and "findById db i = Some u"
  shows "fst (srv_payment e h db) = (200, message ''Payment status updated successfully'')
       \<and> findById (snd (srv_payment e h db)) i
           = Some (u\<lparr>hasPaid := True, paymentDate := Some (date_now e)\<rparr>)
       \<and> (\<forall>j. j \<noteq> i \<longrightarrow> findById (snd (srv_payment e h db)) j = findById db j)
       \<and> games (snd (srv_payment e h db)) = games db
       \<and> fst (srv_get_games e h (snd (srv_payment e h db)))
           = (200, JArr (map game_json (sort_desc gcreatedAt (games db))))"
proof -
  let ?u' = "u\<lparr>hasPaid := True, paymentDate := Some (date_now e)\<rparr>"
  have i: "uid ?u' = i"
    using assms(2) by (simp add: findById_uid)
  have run: "srv_payment e h db
      = ((200, message ''Payment status updated successfully''), save_user db ?u')"
    using assms by (simp add: srv_payment_def srv_authenticated_def srv_payment_handler_def)
  have same: "findById (save_user db ?u') i = Some ?u'"
    using findById_save_user_same[of db ?u'] assms(2) i by simp
  have other: "\<forall>j. j \<noteq> i \<longrightarrow> findById (save_user db ?u') j = findById db j"
    using findById_save_user_other[of _ ?u' db] i by simp
  have gs: "games (save_user db ?u') = games db"
    by (simp add: save_user_def)
  have view: "fst (srv_get_games e h (save_user db ?u'))
      = (200, JArr (map game_json (sort_desc gcreatedAt (games db))))"
    using assms(1) same gs
    by (simp add: srv_get_games_def srv_authenticated_def srv_get_games_handler_def)
  show ?thesis
    using run same other gs view by simp
qed

theorem payment_marks_caller_paid_witness:
  "authenticateToken env0 (Some ''Bearer tt'') = Inr 1 \<and> findById db0 1 = Some alice
   \<and> \<not> isAdmin alice \<and> vipExpiryDate alice = None
   \<and> fst (srv_payment env0 (Some ''Bearer tt'') db0)
       = (200, message ''Payment status updated successfully'')
   \<and> findById (snd (srv_payment env0 (Some ''Bearer tt'') db0)) 1
       = Some (alice\<lparr>hasPaid := True, paymentDate := Some 1700000000000\<rparr>)"
proof -
  have d: "date_now env0 = 1700000000000" "\<not> isAdmin alice" "vipExpiryDate alice = None"
    by (simp_all add: env0_def alice_def)
  show ?thesis
    using payment_marks_caller_paid[OF token_alice findById_alice] token_alice findById_alice d
    by simp
qed

section \<open>Admin-only operations and a non-admin actor\<close>

lemma srv_admin_only_non_admin:
  "findById db i = Some u \<Longrightarrow> \<not> isAdmin u \<Longrightarrow>
   srv_admin_only db i m handler = ((403, message ''Admin access required''), db)"
  by (simp add: srv_admin_only_def)

lemma isAdmin_middleware_non_admin:
  "findById db i = Some u \<Longrightarrow> \<not> isAdmin u \<Longrightarrow>
   isAdmin_middleware db i = Some (403, message ''Access denied. Admin only.'')"
  by (simp add: isAdmin_middleware_def)

lemma srv_delete_post_non_admin:
  assumes "authenticateToken e h = Inr i" and "findById db i = Some u" and "\<not> isAdmin u"
  shows "srv_delete_post e h db p =
           (case find (\<lambda>x. pid x = p) (posts db) of
              None \<Rightarrow> ((404, message ''Post not found''), db)
            | Some x \<Rightarrow>
                if pauthor x = i
                then ((200, message ''Post deleted successfully''),
                      db\<lparr>posts := delete_first (\<lambda>y. pid y = p) (posts db)\<rparr>)
                else ((403, message ''Not authorized''), db))"
  using assms
  by (simp add: srv_delete_post_def srv_authenticated_def srv_delete_post_handler_def Let_def
        split: option.splits)

text \<open>
  C4, as stated, fails at the deletion of a post in \<^verbatim>\<open>server.js\<close> (DELETE
  /api/posts/:id), which looks the post up before it reads the account: \<open>carol\<close> is
  not an admin, and her request to delete a post that does not exist is answered 404.
\<close>

theorem non_admin_delete_missing_post:
  "findById db0 4 = Some carol \<and> \<not> isAdmin carol
   \<and> authenticateToken env0 (Some ''Bearer ttttt'') = Inr 4
   \<and> srv_delete_post env0 (Some ''Bearer ttttt'') db0 99
       = ((404, message ''Post not found''), db0)"
proof -
  have n: "\<not> isAdmin carol" by (simp add: carol_def)
  have f: "find (\<lambda>x. pid x = 99) (posts db0) = None" by (simp add: db0_def)
  have "srv_delete_post env0 (Some ''Bearer ttttt'') db0 99
       = ((404, message ''Post not found''), db0)"
    using token_carol f
    by (simp add: srv_delete_post_def srv_authenticated_def srv_delete_post_handler_def)
  then show ?thesis
    using findById_carol n token_carol by (intro conjI)
qed

text \<open>
  C4, amended. For every actor whose account has \<open>isAdmin\<close> false, every operation
  behind the admin check answers 403 and leaves the store as it was, whatever the
  payload: in \<^verbatim>\<open>server.js\<close> create, delete and update a game, list the users, block
  or unblock, grant or revoke VIP and issue a temporary password; in the router-based
  server create, update and delete a game, the game statistics, list the users, grant
  or revoke VIP, the user statistics and delete a post. There the admin check comes
  before every validation of the payload and before every lookup of the target. The
  deletion of a post in \<^verbatim>\<open>server.js\<close> is open to the author of the post: for the
  same actor it answers 404 when no post has the id, 200 when the actor is the author
  (and the post is deleted), and 403 \<^verbatim>\<open>Not authorized\<close> when the post is another's.
\<close>

theorem non_admin_forbidden:
  assumes "findById db i = Some u" and "\<not> isAdmin u"
  shows "(authenticateToken e h = Inr i \<longrightarrow>
            srv_admin_route e h db req = ((403, message ''Admin access required''), db)
            \<and> srv_delete_post e h db p =
                (case find (\<lambda>x. pid x = p) (posts db) of
                   None \<Rightarrow> ((404, message ''Post not found''), db)
                 | Some x \<Rightarrow>
                     if pauthor x = i
                     then ((200, message ''Post deleted successfully''),
                           db\<lparr>posts := delete_first (\<lambda>y. pid y = p) (posts db)\<rparr>)
                     else ((403, message ''Not authorized''), db)))
       \<and> (auth e t = Inr i \<longrightarrow>
            router_admin_route e t db rreq = ((403, message ''Access denied. Admin only.''), db))"
proof (intro conjI impI)
  assume a: "authenticateToken e h = Inr i"
  show "srv_admin_route e h db req = ((403, message ''Admin access required''), db)"
    using a srv_admin_only_non_admin[OF assms]
    by (cases req)
       (simp_all add: srv_admin_route_def srv_authenticated_def srv_create_game_handler_def
          srv_delete_game_handler_def srv_update_result_handler_def srv_get_users_handler_def
          srv_block_handler_def srv_vip_handler_def srv_temp_password_handler_def)
next
  assume a: "authenticateToken e h = Inr i"
  show "srv_delete_post e h db p =
          (case find (\<lambda>x. pid x = p) (posts db) of
             None \<Rightarrow> ((404, message ''Post not found''), db)
           | Some x \<Rightarrow>
               if pauthor x = i
               then ((200, message ''Post deleted successfully''),
                     db\<lparr>posts := delete_first (\<lambda>y. pid y = p) (posts db)\<rparr>)
               else ((403, message ''Not authorized''), db))"
    using srv_delete_post_non_admin[OF a assms] .
next
  assume a: "auth e t = Inr i"
  show "router_admin_route e t db rreq = ((403, message ''Access denied. Admin only.''), db)"
    using a isAdmin_middleware_non_admin[OF assms] assms
    by (cases rreq)
       (simp_all add: router_admin_route_def with_auth_isAdmin_def with_auth_def
          community_delete_post_handler_def)
qed

text \<open>
  At the non-admin account \<open>alice\<close>, with a game body that fails validation, with a
  result that is neither \<^verbatim>\<open>win\<close> nor \<^verbatim>\<open>loss\<close>, and with a post that does not exist.
\<close>

lemma token_alice_router: "auth env0 (Some ''tt'') = Inr 1"
  by (simp add: auth_def env0_def)

theorem non_admin_forbidden_witness:
  "findById db0 1 = Some alice \<and> \<not> isAdmin alice
   \<and> authenticateToken env0 (Some ''Bearer tt'') = Inr 1
   \<and> srv_admin_route env0 (Some ''Bearer tt'') db0
        (Srv_create_game \<lparr>b_homeTeam = None, b_awayTeam = None, b_league = None,
           b_prediction = None, b_odds = None, b_gameTime = None, b_status = Some ''void'',
           b_isVip = None\<rparr>)
       = ((403, message ''Admin access required''), db0)
   \<and> srv_delete_post env0 (Some ''Bearer tt'') db0 99 = ((404, message ''Post not found''), db0)
   \<and> auth env0 (Some ''tt'') = Inr 1
   \<and> router_admin_route env0 (Some ''tt'') db0 (Games_result 99 (Some ''draw''))
       = ((403, message ''Access denied. Admin only.''), db0)"
proof -
  have n: "\<not> isAdmin alice" by (simp add: alice_def)
  have f: "find (\<lambda>x. pid x = 99) (posts db0) = None" by (simp add: db0_def)
  note T = non_admin_forbidden[OF findById_alice n, of env0 "Some ''Bearer tt''" _ 99 "Some ''tt''"]
  have a: "srv_admin_route env0 (Some ''Bearer tt'') db0
        (Srv_create_game \<lparr>b_homeTeam = None, b_awayTeam = None, b_league = None,
           b_prediction = None, b_odds = None, b_gameTime = None, b_status = Some ''void'',
           b_isVip = None\<rparr>)
       = ((403, message ''Admin access required''), db0)"
    using T[THEN conjunct1, rule_format, OF token_alice, THEN conjunct1] .
  have b: "srv_delete_post env0 (Some ''Bearer tt'') db0 99 = ((404, message ''Post not found''), db0)"
    using T[THEN conjunct1, rule_format, OF token_alice, THEN conjunct2] f by simp
  have c: "router_admin_route env0 (Some ''tt'') db0 (Games_result 99 (Some ''draw''))
       = ((403, message ''Access denied. Admin only.''), db0)"
    using T[THEN conjunct2, rule_format, OF token_alice_router] .
  show ?thesis
    using findById_alice n token_alice a b token_alice_router c by (intro conjI)
qed

section \<open>The temporary password\<close>

lemma is_digit_digit: "d < 10 \<Longrightarrow> is_digit (digit d)"
proof -
  assume "d < 10"
  then have "d \<in> {0,1,2,3,4,5,6,7,8,9}" by auto
  then show ?thesis by (auto simp: is_digit_def digit_def)
qed

lemma toString_digits: "list_all is_digit (toString n)"
proof (induction n rule: toString.induct)
  case (1 n)
  show ?case
  proof (cases "n < 10")
    case True
    then show ?thesis by (subst toString.simps) (simp add: is_digit_digit)
  next
    case False
    then show ?thesis using 1 by (subst toString.simps) (simp add: is_digit_digit)
  qed
qed

lemma toString_length: "0 < k \<Longrightarrow> 10 ^ (k - 1) \<le> n \<Longrightarrow> n < 10 ^ k \<Longrightarrow> length (toString n) = k"
proof (induction n arbitrary: k rule: toString.induct)
  case (1 n)
  show ?case
  proof (cases "n < 10")
    case True
    have "k = 1"
    proof (rule ccontr)
      assume "k \<noteq> 1"
      then have "2 \<le> k" using 1(2) by simp
      then have "(10::nat) ^ 1 \<le> 10 ^ (k - 1)" by (intro power_increasing) auto
      then show False using 1(3) True by simp
    qed
    then show ?thesis using True by (subst toString.simps) simp
  next
    case False
    then have k2: "2 \<le> k"
      using 1(4) by (cases "k = 1") (use 1(2) in auto)
    then obtain j where j: "k = Suc j" "0 < j" by (cases k) auto
    have lo: "10 ^ (j - 1) \<le> n div 10"
    proof -
      obtain m where m: "j = Suc m" using j(2) by (cases j) auto
      have "10 ^ (k - 1) = (10::nat) * 10 ^ m" using j m by simp
      then have "10 * 10 ^ m \<le> n" using 1(3) by simp
      then have "10 ^ m \<le> n div 10" by simp
      then show ?thesis using m by simp
    qed
    have hi: "n div 10 < 10 ^ j"
      using 1(4) j by (simp add: div_less_iff_less_mult mult.commute)
    have "length (toString (n div 10)) = j"
      using 1(1)[OF False j(2) lo hi] .
    then show ?thesis using False j by (subst toString.simps) simp
  qed
qed

lemma temp_range:
  fixes r :: rat
  assumes "0 \<le> r" "r < 1"
  shows "100000 \<le> nat \<lfloor>100000 + r * 900000\<rfloor> \<and> nat \<lfloor>100000 + r * 900000\<rfloor> \<le> 999999"
proof -
  have a: "(100000::int) \<le> \<lfloor>100000 + r * 900000\<rfloor>"
    using assms(1) by (simp add: le_floor_iff)
  have "100000 + r * 900000 < 1000000" using assms(2) by simp
  then have b: "\<lfloor>100000 + r * 900000\<rfloor> < (1000000::int)"
    by (simp add: floor_less_iff)
  show ?thesis using a b by linarith
qed

lemma tempPassword_env0: "tempPassword env0 = ''550000''"
  by (simp add: tempPassword_def env0_def toString.simps digit_def)

lemma findById_update_same:
  assumes "\<And>x. uid (f x) = uid x"
  shows "findById (db\<lparr>users := update_first (\<lambda>x. uid x = t) f (users db)\<rparr>) t
           = map_option f (findById db t)"
  using assms by (simp add: findById_def find_update_first_same)

lemma findById_update_other:
  assumes "\<And>x. uid (f x) = uid x" and "j \<noteq> t"
  shows "findById (db\<lparr>users := update_first (\<lambda>x. uid x = t) f (users db)\<rparr>) j
           = findById db j"
  using assms
  by (simp add: findById_def find_update_first_other[where P="\<lambda>x. uid x = t"])

text \<open>
  C8. For every call of PATCH /api/admin/users/:id/generate-temp-password by an admin
  on an existing target (with \<^verbatim>\<open>Math.random()\<close> in \<open>[0, 1)\<close>): the generated code is
  the decimal string of a number from 100000 to 999999, six digits; the response is
  200 and carries the plaintext code; the store afterwards is the store before with,
  in the target's document, the password replaced by the hash of the code and
  \<open>needsPasswordChange\<close> set to true. Nothing else is written, so the plaintext is
  kept nowhere and only this response has it.
\<close>

theorem temp_password_issued:
  assumes tok: "authenticateToken e h = Inr i"
    and adm: "findById db i = Some a" "isAdmin a"
    and tgt: "findById db t = Some u"
    and rnd: "0 \<le> math_random e" "math_random e < 1"
  shows "(\<exists>n. 100000 \<le> n \<and> n \<le> 999999 \<and> tempPassword e = toString n)
       \<and> length (tempPassword e) = 6 \<and> list_all is_digit (tempPassword e)
       \<and> srv_temp_password e h db t
           = ((200, JObj [(''message'', JStr ''Temporary password generated successfully''),
                          (''tempPassword'', JStr (tempPassword e)),
                          (''user'', user_json (u\<lparr>password := bcrypt_hash e (tempPassword e),
                                                  needsPasswordChange := True\<rparr>))]),
              db\<lparr>users := update_first (\<lambda>x. uid x = t)
                       (\<lambda>x. x\<lparr>password := bcrypt_hash e (tempPassword e),
                               needsPasswordChange := True\<rparr>) (users db)\<rparr>)
       \<and> findById (snd (srv_temp_password e h db t)) t
           = Some (u\<lparr>password := bcrypt_hash e (tempPassword e), needsPasswordChange := True\<rparr>)
       \<and> (\<forall>j. j \<noteq> t \<longrightarrow> findById (snd (srv_temp_password e h db t)) j = findById db j)"
proof -
  let ?n = "nat \<lfloor>100000 + math_random e * 900000\<rfloor>"
  let ?f = "\<lambda>x. x\<lparr>password := bcrypt_hash e (tempPassword e), needsPasswordChange := True\<rparr>"
  have range: "100000 \<le> ?n \<and> ?n \<le> 999999"
    using temp_range[OF rnd] .
  have code: "tempPassword e = toString ?n"
    by (simp add: tempPassword_def)
  have len: "length (tempPassword e) = 6"
    unfolding code using range by (intro toString_length) simp_all
  have dig: "list_all is_digit (tempPassword e)"
    unfolding code by (rule toString_digits)
  have run: "srv_temp_password e h db t
      = ((200, JObj [(''message'', JStr ''Temporary password generated successfully''),
                     (''tempPassword'', JStr (tempPassword e)),
                     (''user'', user_json (?f u))]),
         db\<lparr>users := update_first (\<lambda>x. uid x = t) ?f (users db)\<rparr>)"
    using tok adm tgt
    by (simp add: srv_temp_password_def srv_authenticated_def srv_temp_password_handler_def
                  srv_admin_only_def findByIdAndUpdate_def Let_def)
  have same: "findById (db\<lparr>users := update_first (\<lambda>x. uid x = t) ?f (users db)\<rparr>) t = Some (?f u)"
    using findById_update_same[where f="?f" and t=t and db=db] tgt by simp
  have other: "\<forall>j. j \<noteq> t \<longrightarrow>
      findById (db\<lparr>users := update_first (\<lambda>x. uid x = t) ?f (users db)\<rparr>) j = findById db j"
    using findById_update_other[where f="?f" and t=t and db=db] by simp
  show ?thesis
    using range code len dig run same other by auto
qed

lemma token_boss: "authenticateToken env0 (Some ''Bearer ttt'') = Inr 2"
  by (simp add: authenticateToken_def header_token_def env0_def)

lemma findById_boss: "findById db0 2 = Some boss"
  by (simp add: findById_def db0_def alice_def boss_def)

theorem temp_password_issued_witness:
  "authenticateToken env0 (Some ''Bearer ttt'') = Inr 2 \<and> findById db0 2 = Some boss
   \<and> isAdmin boss \<and> findById db0 1 = Some alice
   \<and> 0 \<le> math_random env0 \<and> math_random env0 < 1
   \<and> tempPassword env0 = ''550000''
   \<and> findById (snd (srv_temp_password env0 (Some ''Bearer ttt'') db0 1)) 1
       = Some (alice\<lparr>password := ''$2a$12$000055'', needsPasswordChange := True\<rparr>)"
proof -
  have b: "isAdmin boss" by (simp add: boss_def)
  have r: "0 \<le> math_random env0" "math_random env0 < 1" by (simp_all add: env0_def)
  have h: "bcrypt_hash env0 ''550000'' = ''$2a$12$000055''" by (simp add: env0_def)
  note T = temp_password_issued[OF token_boss findById_boss b findById_alice r]
  have c: "findById (snd (srv_temp_password env0 (Some ''Bearer ttt'') db0 1)) 1
       = Some (alice\<lparr>password := ''$2a$12$000055'', needsPasswordChange := True\<rparr>)"
    using T[THEN conjunct2, THEN conjunct2, THEN conjunct2, THEN conjunct2, THEN conjunct1]
    by (simp only: tempPassword_env0 h)
  show ?thesis
    using token_boss findById_boss b findById_alice r tempPassword_env0 c
    by (intro conjI)
qed

section \<open>The default admin at startup\<close>

lemma find_append_new:
  "find P xs = None \<Longrightarrow> P u \<Longrightarrow> find P (xs @ [u]) = Some u"
  by (induction xs) (auto split: if_splits)

lemma find_None_list_ex: "(find P xs = None) = (\<not> list_ex P xs)"
  by (induction xs) auto

lemma list_ex_or: "list_ex (\<lambda>x. P x \<or> Q x) xs = (list_ex P xs \<or> list_ex Q xs)"
  by (induction xs) auto

lemma insert_default_admin:
  assumes "findOne_username db ''admin'' = None" and "username u = ''admin''"
    and "email u = ''admin@betatips.com.ng''"
  shows "insert_user db u
           = (if list_ex (\<lambda>x. email x = ''admin@betatips.com.ng'') (users db) then None
              else Some (db\<lparr>users := users db @ [u]\<rparr>))"
proof -
  have "\<not> list_ex (\<lambda>x. username x = ''admin'') (users db)"
    using assms(1) by (simp add: findOne_username_def find_None_list_ex)
  then show ?thesis
    using assms(2,3) by (simp add: insert_user_def list_ex_or)
qed

text \<open>
  C9, as stated, fails: \<open>eve\<close> has registered (in \<^verbatim>\<open>server.js\<close>, which has no startup
  step) with the e-mail \<^verbatim>\<open>admin@betatips.com.ng\<close>. No account is named \<open>admin\<close>, yet
  the startup step creates none: the save is refused for the e-mail and the error is
  only logged.
\<close>

theorem default_admin_not_created:
  "map username (users (snd (srv_register env0 empty_store
       ''eve'' ''admin@betatips.com.ng'' ''secret6''))) = [''eve'']
   \<and> findOne_username (snd (srv_register env0 empty_store
       ''eve'' ''admin@betatips.com.ng'' ''secret6'')) ''admin'' = None
   \<and> createDefaultAdmin env0 (snd (srv_register env0 empty_store
       ''eve'' ''admin@betatips.com.ng'' ''secret6''))
       = snd (srv_register env0 empty_store ''eve'' ''admin@betatips.com.ng'' ''secret6'')"
proof -
  let ?v = "new_User env0 empty_store ''eve'' ''admin@betatips.com.ng''
              (bcrypt_hash env0 ''secret6'')"
  have reg: "snd (srv_register env0 empty_store ''eve'' ''admin@betatips.com.ng'' ''secret6'')
      = empty_store\<lparr>users := [?v]\<rparr>"
    by (simp add: srv_register_def findOne_email_or_username_def empty_store_def
          insert_user_def Let_def new_User_def env0_def)
  have n: "map username (users (empty_store\<lparr>users := [?v]\<rparr>)) = [''eve'']"
    by (simp add: new_User_def)
  have f: "findOne_username (empty_store\<lparr>users := [?v]\<rparr>) ''admin'' = None"
    by (simp add: findOne_username_def new_User_def)
  have c: "createDefaultAdmin env0 (empty_store\<lparr>users := [?v]\<rparr>) = empty_store\<lparr>users := [?v]\<rparr>"
    using f by (simp add: createDefaultAdmin_def insert_user_def pre_save_def new_User_def)
  show ?thesis
    unfolding reg using n f c by (intro conjI)
qed

text \<open>
  C9, amended. \<open>createDefaultAdmin\<close>, the startup step: if no account has the
  username \<open>admin\<close> and none has the e-mail \<^verbatim>\<open>admin@betatips.com.ng\<close>, exactly one
  document is added, with the username \<open>admin\<close>, that e-mail, \<open>isAdmin\<close>, \<open>hasPaid\<close>
  and \<open>isActive\<close> true and, as its password, the hash of the fixed \<^verbatim>\<open>'admin123'\<close>;
  if there is an account named \<open>admin\<close> the store is left as it is; so it is when no
  account is named \<open>admin\<close> but one has the e-mail. Running the step again changes
  nothing.
\<close>

theorem default_admin_bootstrap:
  "(findOne_username db ''admin'' = None
      \<and> \<not> list_ex (\<lambda>x. email x = ''admin@betatips.com.ng'') (users db) \<longrightarrow>
      (\<exists>u. createDefaultAdmin e db = db\<lparr>users := users db @ [u]\<rparr>
           \<and> username u = ''admin'' \<and> email u = ''admin@betatips.com.ng''
           \<and> password u = bcrypt_hash e ''admin123''
           \<and> isAdmin u \<and> hasPaid u \<and> isActive u))
   \<and> (findOne_username db ''admin'' \<noteq> None \<longrightarrow> createDefaultAdmin e db = db)
   \<and> (findOne_username db ''admin'' = None
      \<and> list_ex (\<lambda>x. email x = ''admin@betatips.com.ng'') (users db) \<longrightarrow>
      createDefaultAdmin e db = db)
   \<and> createDefaultAdmin e' (createDefaultAdmin e db) = createDefaultAdmin e db"
proof -
  let ?a = "pre_save e ((new_User e db ''admin'' ''admin@betatips.com.ng'' ''admin123'')
               \<lparr>isAdmin := True, hasPaid := True, isActive := True\<rparr>)"
  have props: "username ?a = ''admin'' \<and> email ?a = ''admin@betatips.com.ng''
           \<and> password ?a = bcrypt_hash e ''admin123''
           \<and> isAdmin ?a \<and> hasPaid ?a \<and> isActive ?a"
    by (simp add: pre_save_def new_User_def)
  have ins: "findOne_username db ''admin'' = None \<Longrightarrow>
      insert_user db ?a
        = (if list_ex (\<lambda>x. email x = ''admin@betatips.com.ng'') (users db) then None
           else Some (db\<lparr>users := users db @ [?a]\<rparr>))"
    using props by (intro insert_default_admin) simp_all
  have created: "findOne_username db ''admin'' = None
      \<and> \<not> list_ex (\<lambda>x. email x = ''admin@betatips.com.ng'') (users db) \<longrightarrow>
      createDefaultAdmin e db = db\<lparr>users := users db @ [?a]\<rparr>"
    using ins by (simp add: createDefaultAdmin_def)
  have exists: "findOne_username db ''admin'' \<noteq> None \<longrightarrow> createDefaultAdmin e db = db"
    by (auto simp: createDefaultAdmin_def)
  have refused: "findOne_username db ''admin'' = None
      \<and> list_ex (\<lambda>x. email x = ''admin@betatips.com.ng'') (users db) \<longrightarrow>
      createDefaultAdmin e db = db"
    using ins by (simp add: createDefaultAdmin_def)
  have again: "createDefaultAdmin e' (createDefaultAdmin e db) = createDefaultAdmin e db"
  proof (cases "findOne_username db ''admin'' = None
      \<and> \<not> list_ex (\<lambda>x. email x = ''admin@betatips.com.ng'') (users db)")
    case True
    then have c: "createDefaultAdmin e db = db\<lparr>users := users db @ [?a]\<rparr>"
      using created by simp
    have "findOne_username (db\<lparr>users := users db @ [?a]\<rparr>) ''admin'' = Some ?a"
      using True props by (simp add: findOne_username_def find_append_new)
    then show ?thesis
      unfolding c by (simp add: createDefaultAdmin_def)
  next
    case False
    then have "createDefaultAdmin e db = db"
      using exists refused by (cases "findOne_username db ''admin'' = None") auto
    moreover have "createDefaultAdmin e' db = db"
    proof (cases "findOne_username db ''admin''")
      case None
      then have l: "list_ex (\<lambda>x. email x = ''admin@betatips.com.ng'') (users db)"
        using False by simp
      let ?b = "pre_save e' ((new_User e' db ''admin'' ''admin@betatips.com.ng'' ''admin123'')
               \<lparr>isAdmin := True, hasPaid := True, isActive := True\<rparr>)"
      have "insert_user db ?b = None"
        using None l by (subst insert_default_admin) (simp_all add: pre_save_def new_User_def)
      then show ?thesis using None by (simp add: createDefaultAdmin_def)
    next
      case (Some a)
      then show ?thesis by (simp add: createDefaultAdmin_def)
    qed
    ultimately show ?thesis by simp
  qed
  show ?thesis
    using created props exists refused again by blast
qed

theorem default_admin_bootstrap_witness:
  "findOne_username empty_store ''admin'' = None
   \<and> \<not> list_ex (\<lambda>x. email x = ''admin@betatips.com.ng'') (users empty_store)
   \<and> (\<exists>u. createDefaultAdmin env0 empty_store = empty_store\<lparr>users := [u]\<rparr>
          \<and> username u = ''admin'' \<and> password u = ''$2a$12$321nimda''
          \<and> isAdmin u \<and> hasPaid u \<and> isActive u)
   \<and> createDefaultAdmin env0 (createDefaultAdmin env0 empty_store)
       = createDefaultAdmin env0 empty_store"
proof -
  have n: "findOne_username empty_store ''admin'' = None"
    by (simp add: findOne_username_def empty_store_def)
  have m: "\<not> list_ex (\<lambda>x. email x = ''admin@betatips.com.ng'') (users empty_store)"
    by (simp add: empty_store_def)
  have h: "bcrypt_hash env0 ''admin123'' = ''$2a$12$321nimda''" by (simp add: env0_def)
  have u: "users empty_store = []" by (simp add: empty_store_def)
  note T = default_admin_bootstrap[of empty_store env0 env0]
  have c: "\<exists>u. createDefaultAdmin env0 empty_store = empty_store\<lparr>users := [u]\<rparr>
          \<and> username u = ''admin'' \<and> password u = ''$2a$12$321nimda''
          \<and> isAdmin u \<and> hasPaid u \<and> isActive u"
    using T[THEN conjunct1, rule_format, OF conjI[OF n m]] unfolding h u by auto
  show ?thesis
    using n m c T[THEN conjunct2, THEN conjunct2, THEN conjunct2] by (intro conjI)
qed

text \<open>
  The script \<^verbatim>\<open>createAdmin.js\<close>, which is not run at startup, does otherwise: it
  deletes an existing account named \<open>admin\<close> and saves a new one.
\<close>

lemma createAdmin_replaces:
  "findOne_username db ''admin'' = Some a \<Longrightarrow>
   users (createAdmin e db) = delete_first (\<lambda>x. username x = ''admin'') (users db)
   \<or> (\<exists>u. users (createAdmin e db)
           = delete_first (\<lambda>x. username x = ''admin'') (users db) @ [u]
         \<and> username u = ''admin'' \<and> email u = ''admin@example.com''
         \<and> password u = bcrypt_hash e ''admin123'' \<and> isAdmin u \<and> hasPaid u)"
  by (auto simp: createAdmin_def insert_user_def pre_save_def new_User_def Let_def)

section \<open>Blocked accounts\<close>

text \<open>
  C2, as stated, fails: \<open>carol\<close> is blocked, her token is valid, and GET /api/games
  answers 200 with the games of a free account.
\<close>

theorem blocked_actor_views_games:
  "isBlocked carol \<and> authenticateToken env0 (Some ''Bearer ttttt'') = Inr 4
   \<and> findById db0 4 = Some carol
   \<and> srv_get_games env0 (Some ''Bearer ttttt'') db0 = ((200, JArr [game_json free_game]), db0)"
proof -
  have b: "isBlocked carol" "\<not> hasPaid carol" "\<not> isAdmin carol"
    by (simp_all add: carol_def)
  have g: "filter (\<lambda>g. isVip g = False) (games db0) = [free_game]"
    by (simp add: db0_def free_game_def vip_game_def)
  have "srv_get_games env0 (Some ''Bearer ttttt'') db0 = ((200, JArr [game_json free_game]), db0)"
    using token_carol findById_carol b g
    by (simp add: srv_get_games_def srv_authenticated_def srv_get_games_handler_def sort_desc_def)
  then show ?thesis
    using b token_carol findById_carol by simp
qed

text \<open>
  C2, amended. \<open>isBlocked\<close> is written by the admin's block route and read by no
  handler. For every authenticated actor whose account is blocked,
  \<^verbatim>\<open>authenticateToken\<close> lets the request through and GET /api/games answers 200 with
  the list that the same account would get unblocked (every game when \<open>hasPaid\<close> or
  \<open>isAdmin\<close>, the games not marked VIP otherwise). The one denial by account state
  is the deactivation: GET /me of \<^verbatim>\<open>routes/auth\<close> answers 200 to a blocked account
  that is active and 403 \<^verbatim>\<open>Account deactivated\<close> to one that is not.
\<close>

theorem blocked_actor_not_denied:
  assumes "authenticateToken e h = Inr i" and "findById db i = Some u" and "isBlocked u"
  shows "fst (srv_get_games e h db)
           = (200, JArr (map game_json (sort_desc gcreatedAt
                (if hasPaid u \<or> isAdmin u then games db
                 else filter (\<lambda>g. \<not> isVip g) (games db)))))
       \<and> fst (srv_get_games e h (save_user db (u\<lparr>isBlocked := False\<rparr>)))
           = fst (srv_get_games e h db)
       \<and> (isActive u \<longrightarrow> fst (fst (auth_me_handler db i)) = 200)
       \<and> (\<not> isActive u \<longrightarrow> fst (auth_me_handler db i) = (403, message ''Account deactivated''))"
proof -
  let ?v = "u\<lparr>isBlocked := False\<rparr>"
  have i: "uid ?v = i" using assms(2) by (simp add: findById_uid)
  have same: "findById (save_user db ?v) i = Some ?v"
    using findById_save_user_same[of db ?v] assms(2) i by simp
  have gs: "games (save_user db ?v) = games db" by (simp add: save_user_def)
  have a: "fst (srv_get_games e h db)
           = (200, JArr (map game_json (sort_desc gcreatedAt
                (if hasPaid u \<or> isAdmin u then games db
                 else filter (\<lambda>g. \<not> isVip g) (games db)))))"
    using assms(1,2)
    by (simp add: srv_get_games_def srv_authenticated_def srv_get_games_handler_def)
  have b: "fst (srv_get_games e h (save_user db ?v))
           = (200, JArr (map game_json (sort_desc gcreatedAt
                (if hasPaid u \<or> isAdmin u then games db
                 else filter (\<lambda>g. \<not> isVip g) (games db)))))"
    using assms(1) same gs
    by (simp add: srv_get_games_def srv_authenticated_def srv_get_games_handler_def)
  have c: "isActive u \<longrightarrow> fst (fst (auth_me_handler db i)) = 200"
    using assms(2) by (simp add: auth_me_handler_def)
  have d: "\<not> isActive u \<longrightarrow> fst (auth_me_handler db i) = (403, message ''Account deactivated'')"
    using assms(2) by (simp add: auth_me_handler_def)
  show ?thesis using a b c d by simp
qed

theorem blocked_actor_not_denied_witness:
  "authenticateToken env0 (Some ''Bearer ttttt'') = Inr 4 \<and> findById db0 4 = Some carol
   \<and> isBlocked carol \<and> isActive carol
   \<and> fst (srv_get_games env0 (Some ''Bearer ttttt'') (save_user db0 (carol\<lparr>isBlocked := False\<rparr>)))
       = fst (srv_get_games env0 (Some ''Bearer ttttt'') db0)
   \<and> fst (fst (auth_me_handler db0 4)) = 200"
proof -
  have b: "isBlocked carol" and a: "isActive carol" by (simp_all add: carol_def)
  note T = blocked_actor_not_denied[OF token_carol findById_carol b]
  show ?thesis
    using token_carol findById_carol b a T[THEN conjunct2, THEN conjunct1]
      T[THEN conjunct2, THEN conjunct2, THEN conjunct1, rule_format, OF a]
    by (intro conjI)
qed

section \<open>Login\<close>

lemma findOne_bob: "findOne_username db0 ''bob'' = Some bob"
  by (simp add: findOne_username_def db0_def alice_def boss_def bob_def)

lemma findOne_alice: "findOne_username db0 ''alice'' = Some alice"
  by (simp add: findOne_username_def db0_def alice_def)

lemma findOne_nobody: "findOne_username db0 ''nobody'' = None"
  by (simp add: findOne_username_def db0_def alice_def boss_def bob_def carol_def)

text \<open>
  C3, as stated, fails for the login of \<^verbatim>\<open>routes/auth\<close>: \<open>bob\<close> is deactivated; a
  wrong password for \<open>bob\<close> is answered 403 and the deactivation message, an unknown
  username 400 \<^verbatim>\<open>Invalid credentials\<close>.
\<close>

theorem login_reveals_deactivated_username:
  "findOne_username db0 ''nobody'' = None \<and> findOne_username db0 ''bob'' = Some bob
   \<and> \<not> comparePassword env0 bob ''wrong''
   \<and> auth_login env0 db0 ''nobody'' (Some ''wrong'') = (400, message ''Invalid credentials'')
   \<and> auth_login env0 db0 ''bob'' (Some ''wrong'')
       = (403, message ''Account has been deactivated. Contact support.'')"
proof -
  have w: "\<not> comparePassword env0 bob ''wrong''"
    by (simp add: comparePassword_def env0_def bob_def)
  have a: "\<not> isActive bob" by (simp add: bob_def)
  show ?thesis
    using findOne_nobody findOne_bob w a by (simp add: auth_login_def)
qed

text \<open>
  C3, amended. For every pair of login calls whose passwords are strings, one with an
  unknown username and one with a known username and a wrong password:
  \<^verbatim>\<open>server.js\<close> answers both with 400 \<^verbatim>\<open>Invalid credentials\<close>; \<^verbatim>\<open>routes/auth\<close> does
  so when the known account is active, and answers the second with 403 and the
  deactivation message when it is deactivated (the check of \<open>isActive\<close> comes before
  the comparison of the password).
\<close>

theorem login_errors_identical:
  assumes "findOne_username db n1 = None" and "findOne_username db n2 = Some u"
    and "\<not> bcrypt_compare e p2 (password u)"
  shows "srv_login e db n1 (Some p1) = (400, message ''Invalid credentials'')
       \<and> srv_login e db n2 (Some p2) = (400, message ''Invalid credentials'')
       \<and> auth_login e db n1 (Some p1) = (400, message ''Invalid credentials'')
       \<and> (isActive u \<longrightarrow>
            auth_login e db n2 (Some p2) = (400, message ''Invalid credentials''))
       \<and> (\<not> isActive u \<longrightarrow>
            auth_login e db n2 (Some p2)
              = (403, message ''Account has been deactivated. Contact support.''))"
  using assms by (simp add: srv_login_def auth_login_def comparePassword_def)

theorem login_errors_identical_witness:
  "findOne_username db0 ''nobody'' = None \<and> findOne_username db0 ''alice'' = Some alice
   \<and> \<not> bcrypt_compare env0 ''wrong'' (password alice) \<and> isActive alice
   \<and> srv_login env0 db0 ''nobody'' (Some ''x'') = srv_login env0 db0 ''alice'' (Some ''wrong'')
   \<and> auth_login env0 db0 ''nobody'' (Some ''x'')
       = auth_login env0 db0 ''alice'' (Some ''wrong'')"
proof -
  have w: "\<not> bcrypt_compare env0 ''wrong'' (password alice)"
    by (simp add: env0_def alice_def)
  have a: "isActive alice" by (simp add: alice_def)
  note T = login_errors_identical[OF findOne_nobody findOne_alice w, of "''x''"]
  show ?thesis
    using findOne_nobody findOne_alice w a T by simp
qed

text \<open>
  A password that is missing or not a string is outside the pair above: for an
  unknown username \<^verbatim>\<open>server.js\<close> answers 400 as before, for a known one the comparison
  throws and the answer is 500.
\<close>

lemma srv_login_password_not_a_string:
  "(findOne_username db n = None \<longrightarrow>
      srv_login e db n None = (400, message ''Invalid credentials''))
   \<and> (findOne_username db n = Some u \<longrightarrow>
      srv_login e db n None = (500, message ''Server error during login''))"
  by (simp add: srv_login_def)

text \<open>
  C6, as stated, fails for the login of \<^verbatim>\<open>server.js\<close>, which does not read
  \<open>isActive\<close>: the deactivated \<open>bob\<close> logs in with his password and gets a token.
\<close>

theorem deactivated_account_logs_in:
  "findOne_username db0 ''bob'' = Some bob \<and> \<not> isActive bob
   \<and> bcrypt_compare env0 ''secret3'' (password bob)
   \<and> srv_login env0 db0 ''bob'' (Some ''secret3'')
       = (200, JObj [(''message'', JStr ''Login successful''),
                     (''token'', JStr (jwt_sign env0 3)), (''user'', srv_user_summary bob)])"
proof -
  have c: "bcrypt_compare env0 ''secret3'' (password bob)" "\<not> isActive bob"
      "uid bob = 3"
    by (simp_all add: env0_def bob_def)
  show ?thesis
    using findOne_bob c by (simp add: srv_login_def)
qed

text \<open>
  C6, amended. For every account with \<open>isActive\<close> false, the login of
  \<^verbatim>\<open>routes/auth\<close> is denied with 403 \<^verbatim>\<open>Account has been deactivated. Contact support.\<close>,
  whatever the password, and never with \<^verbatim>\<open>Invalid credentials\<close>. The login of
  \<^verbatim>\<open>server.js\<close>, whose User schema has no field \<open>isActive\<close>, answers the correct
  password with 200 and a token.
\<close>

theorem deactivated_login:
  assumes "findOne_username db n = Some u" and "\<not> isActive u"
  shows "auth_login e db n q = (403, message ''Account has been deactivated. Contact support.'')
       \<and> (bcrypt_compare e p (password u) \<longrightarrow>
            srv_login e db n (Some p)
              = (200, JObj [(''message'', JStr ''Login successful''),
                            (''token'', JStr (jwt_sign e (uid u))),
                            (''user'', srv_user_summary u)]))"
  using assms by (simp add: auth_login_def srv_login_def)

theorem deactivated_login_witness:
  "findOne_username db0 ''bob'' = Some bob \<and> \<not> isActive bob
   \<and> comparePassword env0 bob ''secret3''
   \<and> auth_login env0 db0 ''bob'' (Some ''secret3'')
       = (403, message ''Account has been deactivated. Contact support.'')"
proof -
  have a: "\<not> isActive bob" by (simp add: bob_def)
  have c: "comparePassword env0 bob ''secret3''"
    by (simp add: comparePassword_def env0_def bob_def)
  show ?thesis
    using findOne_bob a c deactivated_login[OF findOne_bob a, THEN conjunct1]
    by (intro conjI)
qed

section \<open>The VIP dates\<close>

lemma update_first_found:
  "find P xs = Some u \<Longrightarrow> update_first P (\<lambda>_. f u) xs = update_first P f xs"
  by (induction xs) (auto split: if_splits)

lemma map_update_first: "(\<And>x. g (f x) = g x) \<Longrightarrow> map g (update_first P f xs) = map g xs"
  by (induction xs) auto

lemma admin_vip_update_fields:
  "admin_vip_update e paid
     = (\<lambda>x. x\<lparr>hasPaid := paid,
             vipStartDate := (if paid then Some (date_now e) else None),
             vipExpiryDate := (if paid then Some (date_now e + 2592000000) else None),
             transactionId := (if paid then Some (''ADMIN_GRANTED_'' @ toString (date_now e))
                               else None)\<rparr>)"
  by (rule ext) (simp add: admin_vip_update_def)

lemma vip_invariant_admin_vip_update: "vip_invariant (admin_vip_update e paid u)"
  by (simp add: vip_invariant_def admin_vip_update_def)

lemma hasPaid_admin_vip_update: "hasPaid (admin_vip_update e paid u) = paid"
  by (simp add: admin_vip_update_def)

lemma uid_admin_vip_update: "uid (admin_vip_update e paid u) = uid u"
  by (simp add: admin_vip_update_def)

lemma srv_register_store:
  "snd (srv_register e db n m p) = db
   \<or> (\<exists>v. snd (srv_register e db n m p) = db\<lparr>users := users db @ [v]\<rparr>
          \<and> \<not> hasPaid v \<and> vipStartDate v = None \<and> vipExpiryDate v = None)"
proof -
  let ?v = "new_User e db n m (bcrypt_hash e p)"
  have "\<not> hasPaid ?v \<and> vipStartDate ?v = None \<and> vipExpiryDate ?v = None"
    by (simp add: new_User_def)
  moreover have "snd (srv_register e db n m p) = db
      \<or> snd (srv_register e db n m p) = db\<lparr>users := users db @ [?v]\<rparr>"
    by (simp add: srv_register_def insert_user_def Let_def split: option.splits)
  ultimately show ?thesis by blast
qed

lemma auth_register_store:
  "snd (auth_register e db n m p) = db
   \<or> (\<exists>v. snd (auth_register e db n m p) = db\<lparr>users := users db @ [v]\<rparr>
          \<and> \<not> hasPaid v \<and> vipStartDate v = None \<and> vipExpiryDate v = None)"
proof -
  let ?v = "pre_save e ((new_User e db n m p)\<lparr>isActive := True\<rparr>)"
  have "\<not> hasPaid ?v \<and> vipStartDate ?v = None \<and> vipExpiryDate ?v = None"
    by (simp add: new_User_def pre_save_def)
  moreover have "snd (auth_register e db n m p) = db
      \<or> snd (auth_register e db n m p) = db\<lparr>users := users db @ [?v]\<rparr>"
    by (simp add: auth_register_def insert_user_def Let_def split: option.splits)
  ultimately show ?thesis by blast
qed

lemma admin_vip_store:
  "snd (admin_vip e t db target paid) = db
   \<or> (findById db target \<noteq> None
      \<and> snd (admin_vip e t db target paid)
          = db\<lparr>users := update_first (\<lambda>x. uid x = target) (admin_vip_update e paid)
                           (users db)\<rparr>)"
  by (simp add: admin_vip_def with_auth_isAdmin_def with_auth_def admin_vip_handler_def
        findByIdAndUpdate_def split: sum.splits option.splits)

lemma admin_vip_others:
  assumes "j \<noteq> target"
  shows "findById (snd (admin_vip e t db target paid)) j = findById db j"
  using admin_vip_store[of e t db target paid] assms
    findById_update_other[where f="admin_vip_update e paid" and j=j and t=target and db=db]
  by (auto simp: uid_admin_vip_update)

lemma admin_vip_ok:
  assumes "fst (fst (admin_vip e t db target paid)) = 200"
  shows "\<exists>u. findById db target = Some u
           \<and> snd (admin_vip e t db target paid)
               = db\<lparr>users := update_first (\<lambda>x. uid x = target) (admin_vip_update e paid) (users db)\<rparr>"
  using assms
  by (auto simp: admin_vip_def with_auth_isAdmin_def with_auth_def admin_vip_handler_def
        findByIdAndUpdate_def isAdmin_middleware_def auth_def message_def
        split: sum.splits option.splits if_splits)

lemma admin_vip_target:
  assumes "fst (fst (admin_vip e t db target paid)) = 200"
  shows "\<exists>u. findById db target = Some u
           \<and> findById (snd (admin_vip e t db target paid)) target
               = Some (admin_vip_update e paid u)"
proof -
  obtain u where u: "findById db target = Some u"
    and s: "snd (admin_vip e t db target paid)
             = db\<lparr>users := update_first (\<lambda>x. uid x = target) (admin_vip_update e paid) (users db)\<rparr>"
    using admin_vip_ok[OF assms] by blast
  have "findById (snd (admin_vip e t db target paid)) target = Some (admin_vip_update e paid u)"
    unfolding s using u
    by (simp add: findById_update_same[where f="admin_vip_update e paid"] uid_admin_vip_update)
  then show ?thesis using u by blast
qed

lemma srv_payment_store:
  "snd (srv_payment e h db) = db
   \<or> (\<exists>i. authenticateToken e h = Inr i \<and> findById db i \<noteq> None
         \<and> snd (srv_payment e h db)
             = db\<lparr>users := update_first (\<lambda>x. uid x = i)
                    (\<lambda>x. x\<lparr>hasPaid := True, paymentDate := Some (date_now e)\<rparr>) (users db)\<rparr>)"
proof (cases "authenticateToken e h")
  case (Inl r)
  then show ?thesis by (simp add: srv_payment_def srv_authenticated_def)
next
  case (Inr i)
  show ?thesis
  proof (cases "findById db i")
    case None
    then show ?thesis
      using Inr by (simp add: srv_payment_def srv_authenticated_def srv_payment_handler_def)
  next
    case (Some u)
    let ?f = "\<lambda>x. x\<lparr>hasPaid := True, paymentDate := Some (date_now e)\<rparr>"
    have i: "uid u = i" using Some by (rule findById_uid)
    have s: "snd (srv_payment e h db) = save_user db (?f u)"
      using Inr Some by (simp add: srv_payment_def srv_authenticated_def srv_payment_handler_def)
    have "update_first (\<lambda>x. uid x = i) (\<lambda>_. ?f u) (users db)
        = update_first (\<lambda>x. uid x = i) ?f (users db)"
      using Some by (intro update_first_found) (simp add: findById_def)
    then have "snd (srv_payment e h db)
        = db\<lparr>users := update_first (\<lambda>x. uid x = i) ?f (users db)\<rparr>"
      unfolding s by (simp add: save_user_def i)
    then show ?thesis using Inr Some by simp
  qed
qed

lemma srv_vip_store:
  "snd (srv_admin_route e h db (Srv_vip target paid)) = db
   \<or> (findById db target \<noteq> None
      \<and> snd (srv_admin_route e h db (Srv_vip target paid))
          = db\<lparr>users := update_first (\<lambda>x. uid x = target)
                 (\<lambda>x. x\<lparr>hasPaid := paid,
                        paymentDate := (if paid then Some (date_now e) else None)\<rparr>)
                 (users db)\<rparr>)"
  by (simp add: srv_admin_route_def srv_authenticated_def srv_vip_handler_def
        srv_admin_only_def findByIdAndUpdate_def split: sum.splits option.splits)

lemma srv_payment_others:
  assumes "authenticateToken e h \<noteq> Inr j"
  shows "findById (snd (srv_payment e h db)) j = findById db j"
proof -
  have "\<And>i. authenticateToken e h = Inr i \<Longrightarrow>
      findById (db\<lparr>users := update_first (\<lambda>x. uid x = i)
                 (\<lambda>x. x\<lparr>hasPaid := True, paymentDate := Some (date_now e)\<rparr>) (users db)\<rparr>) j
        = findById db j"
    using assms by (intro findById_update_other) auto
  then show ?thesis
    using srv_payment_store[of e h db] by auto
qed

lemma srv_vip_others:
  assumes "j \<noteq> target"
  shows "findById (snd (srv_admin_route e h db (Srv_vip target paid))) j = findById db j"
proof -
  have "findById (db\<lparr>users := update_first (\<lambda>x. uid x = target)
                 (\<lambda>x. x\<lparr>hasPaid := paid,
                        paymentDate := (if paid then Some (date_now e) else None)\<rparr>)
                 (users db)\<rparr>) j
        = findById db j"
    using assms by (intro findById_update_other) auto
  then show ?thesis
    using srv_vip_store[of e h db target paid] by auto
qed

lemma vip_dates_srv_payment:
  "map vipStartDate (users (snd (srv_payment e h db))) = map vipStartDate (users db)
   \<and> map vipExpiryDate (users (snd (srv_payment e h db))) = map vipExpiryDate (users db)"
  using srv_payment_store[of e h db] by (auto simp: map_update_first)

lemma vip_dates_srv_vip:
  "map vipStartDate (users (snd (srv_admin_route e h db (Srv_vip target paid))))
     = map vipStartDate (users db)
   \<and> map vipExpiryDate (users (snd (srv_admin_route e h db (Srv_vip target paid))))
     = map vipExpiryDate (users db)"
  using srv_vip_store[of e h db target paid] by (auto simp: map_update_first)

text \<open>
  C1, as stated, fails: an account registered on the empty store and then marked paid
  by PATCH /api/user/payment has \<open>hasPaid\<close> true and no VIP date.
\<close>

theorem paid_without_expiry:
  "map_option (\<lambda>u. (username u, hasPaid u, vipStartDate u, vipExpiryDate u))
     (findById (snd (srv_payment env0 (Some ''Bearer tt'')
        (snd (srv_register env0 empty_store ''dave'' ''dave@x.com'' ''secret5'')))) 1)
   = Some (''dave'', True, None, None)"
proof -
  let ?d = "new_User env0 empty_store ''dave'' ''dave@x.com'' (bcrypt_hash env0 ''secret5'')"
  have reg: "snd (srv_register env0 empty_store ''dave'' ''dave@x.com'' ''secret5'')
      = empty_store\<lparr>users := [?d]\<rparr>"
    by (simp add: srv_register_def findOne_email_or_username_def empty_store_def
          insert_user_def Let_def new_User_def env0_def)
  have u: "uid ?d = 1" by (simp add: new_User_def empty_store_def fresh_oid_def)
  have f: "findById (empty_store\<lparr>users := [?d]\<rparr>) 1 = Some ?d"
    using u by (simp add: findById_def)
  have pay: "snd (srv_payment env0 (Some ''Bearer tt'') (empty_store\<lparr>users := [?d]\<rparr>))
      = save_user (empty_store\<lparr>users := [?d]\<rparr>)
          (?d\<lparr>hasPaid := True, paymentDate := Some (date_now env0)\<rparr>)"
    using token_alice f
    by (simp add: srv_payment_def srv_authenticated_def srv_payment_handler_def)
  have "findById (save_user (empty_store\<lparr>users := [?d]\<rparr>)
          (?d\<lparr>hasPaid := True, paymentDate := Some (date_now env0)\<rparr>)) 1
      = Some (?d\<lparr>hasPaid := True, paymentDate := Some (date_now env0)\<rparr>)"
    using u by (simp add: findById_def save_user_def)
  then show ?thesis
    unfolding reg pay by (simp add: new_User_def)
qed

text \<open>
  C1, amended. Register (in either server) changes nothing or adds one account, which
  has \<open>hasPaid\<close> false and both VIP dates null, and leaves every other account as it
  was. PATCH /users/:userId/vip of \<^verbatim>\<open>routes/admin\<close> changes nothing or changes the
  target's document alone: on a grant it sets \<open>hasPaid\<close>, \<open>vipStartDate\<close> (now),
  \<open>vipExpiryDate\<close> (30 days later) and \<open>transactionId\<close> together, on a revoke it
  clears the four together; every other account is left as it was, and after a
  successful call the target has \<open>hasPaid\<close> as requested, \<open>hasPaid\<close> true implying a
  VIP expiry date and \<open>hasPaid\<close> false implying that both VIP dates are null. The
  payment-status update and the VIP route of \<^verbatim>\<open>server.js\<close> change nothing or change
  one document alone (the caller's, the target's), in which they write \<open>hasPaid\<close> and
  \<open>paymentDate\<close> and nothing else: the VIP start and expiry dates of every account
  stay as they were.
\<close>

theorem vip_dates_router_based:
  "(snd (srv_register e db n m p) = db
      \<or> (\<exists>v. snd (srv_register e db n m p) = db\<lparr>users := users db @ [v]\<rparr>
             \<and> \<not> hasPaid v \<and> vipStartDate v = None \<and> vipExpiryDate v = None))
   \<and> (snd (auth_register e db n m p) = db
      \<or> (\<exists>v. snd (auth_register e db n m p) = db\<lparr>users := users db @ [v]\<rparr>
             \<and> \<not> hasPaid v \<and> vipStartDate v = None \<and> vipExpiryDate v = None))
   \<and> (snd (admin_vip e t db target paid) = db
      \<or> (findById db target \<noteq> None
         \<and> snd (admin_vip e t db target paid)
             = db\<lparr>users := update_first (\<lambda>x. uid x = target)
                    (\<lambda>x. x\<lparr>hasPaid := paid,
                           vipStartDate := (if paid then Some (date_now e) else None),
                           vipExpiryDate :=
                             (if paid then Some (date_now e + 2592000000) else None),
                           transactionId :=
                             (if paid then Some (''ADMIN_GRANTED_'' @ toString (date_now e))
                              else None)\<rparr>)
                    (users db)\<rparr>))
   \<and> (\<forall>j. j \<noteq> target \<longrightarrow>
         findById (snd (admin_vip e t db target paid)) j = findById db j)
   \<and> (fst (fst (admin_vip e t db target paid)) = 200 \<longrightarrow>
        (\<exists>u. findById db target = Some u
             \<and> findById (snd (admin_vip e t db target paid)) target
                 = Some (u\<lparr>hasPaid := paid,
                           vipStartDate := (if paid then Some (date_now e) else None),
                           vipExpiryDate :=
                             (if paid then Some (date_now e + 2592000000) else None),
                           transactionId :=
                             (if paid then Some (''ADMIN_GRANTED_'' @ toString (date_now e))
                              else None)\<rparr>))
        \<and> (\<exists>v. findById (snd (admin_vip e t db target paid)) target = Some v
             \<and> hasPaid v = paid \<and> vip_invariant v))
   \<and> (snd (srv_payment e h db) = db
      \<or> (\<exists>i. authenticateToken e h = Inr i \<and> findById db i \<noteq> None
            \<and> snd (srv_payment e h db)
                = db\<lparr>users := update_first (\<lambda>x. uid x = i)
                       (\<lambda>x. x\<lparr>hasPaid := True, paymentDate := Some (date_now e)\<rparr>)
                       (users db)\<rparr>))
   \<and> (snd (srv_admin_route e h db (Srv_vip target paid)) = db
      \<or> (findById db target \<noteq> None
         \<and> snd (srv_admin_route e h db (Srv_vip target paid))
             = db\<lparr>users := update_first (\<lambda>x. uid x = target)
                    (\<lambda>x. x\<lparr>hasPaid := paid,
                           paymentDate := (if paid then Some (date_now e) else None)\<rparr>)
                    (users db)\<rparr>))
   \<and> (\<forall>j. authenticateToken e h \<noteq> Inr j \<longrightarrow>
         findById (snd (srv_payment e h db)) j = findById db j)
   \<and> (\<forall>j. j \<noteq> target \<longrightarrow>
         findById (snd (srv_admin_route e h db (Srv_vip target paid))) j = findById db j)
   \<and> map vipStartDate (users (snd (srv_payment e h db))) = map vipStartDate (users db)
   \<and> map vipExpiryDate (users (snd (srv_payment e h db))) = map vipExpiryDate (users db)
   \<and> map vipStartDate (users (snd (srv_admin_route e h db (Srv_vip target paid))))
       = map vipStartDate (users db)
   \<and> map vipExpiryDate (users (snd (srv_admin_route e h db (Srv_vip target paid))))
       = map vipExpiryDate (users db)"
proof -
  have o1: "\<forall>j. authenticateToken e h \<noteq> Inr j \<longrightarrow>
         findById (snd (srv_payment e h db)) j = findById db j"
    using srv_payment_others by blast
  have o2: "\<forall>j. j \<noteq> target \<longrightarrow>
         findById (snd (srv_admin_route e h db (Srv_vip target paid))) j = findById db j"
    using srv_vip_others by blast
  have c1: "snd (admin_vip e t db target paid) = db
      \<or> (findById db target \<noteq> None
         \<and> snd (admin_vip e t db target paid)
             = db\<lparr>users := update_first (\<lambda>x. uid x = target)
                    (\<lambda>x. x\<lparr>hasPaid := paid,
                           vipStartDate := (if paid then Some (date_now e) else None),
                           vipExpiryDate :=
                             (if paid then Some (date_now e + 2592000000) else None),
                           transactionId :=
                             (if paid then Some (''ADMIN_GRANTED_'' @ toString (date_now e))
                              else None)\<rparr>)
                    (users db)\<rparr>)"
    using admin_vip_store[of e t db target paid] unfolding admin_vip_update_fields .
  have c2: "\<forall>j. j \<noteq> target \<longrightarrow>
         findById (snd (admin_vip e t db target paid)) j = findById db j"
    using admin_vip_others by blast
  have c3: "fst (fst (admin_vip e t db target paid)) = 200 \<longrightarrow>
        (\<exists>u. findById db target = Some u
             \<and> findById (snd (admin_vip e t db target paid)) target
                 = Some (u\<lparr>hasPaid := paid,
                           vipStartDate := (if paid then Some (date_now e) else None),
                           vipExpiryDate :=
                             (if paid then Some (date_now e + 2592000000) else None),
                           transactionId :=
                             (if paid then Some (''ADMIN_GRANTED_'' @ toString (date_now e))
                              else None)\<rparr>))
        \<and> (\<exists>v. findById (snd (admin_vip e t db target paid)) target = Some v
             \<and> hasPaid v = paid \<and> vip_invariant v)"
  proof
    assume ok: "fst (fst (admin_vip e t db target paid)) = 200"
    obtain u where u: "findById db target = Some u"
      and f: "findById (snd (admin_vip e t db target paid)) target
                = Some (admin_vip_update e paid u)"
      using admin_vip_target[OF ok] by blast
    have a: "\<exists>u. findById db target = Some u
             \<and> findById (snd (admin_vip e t db target paid)) target
                 = Some (u\<lparr>hasPaid := paid,
                           vipStartDate := (if paid then Some (date_now e) else None),
                           vipExpiryDate :=
                             (if paid then Some (date_now e + 2592000000) else None),
                           transactionId :=
                             (if paid then Some (''ADMIN_GRANTED_'' @ toString (date_now e))
                              else None)\<rparr>)"
      using u f unfolding admin_vip_update_fields by simp
    have b: "\<exists>v. findById (snd (admin_vip e t db target paid)) target = Some v
             \<and> hasPaid v = paid \<and> vip_invariant v"
      using f by (simp add: hasPaid_admin_vip_update vip_invariant_admin_vip_update)
    show "(\<exists>u. findById db target = Some u
             \<and> findById (snd (admin_vip e t db target paid)) target
                 = Some (u\<lparr>hasPaid := paid,
                           vipStartDate := (if paid then Some (date_now e) else None),
                           vipExpiryDate :=
                             (if paid then Some (date_now e + 2592000000) else None),
                           transactionId :=
                             (if paid then Some (''ADMIN_GRANTED_'' @ toString (date_now e))
                              else None)\<rparr>))
        \<and> (\<exists>v. findById (snd (admin_vip e t db target paid)) target = Some v
             \<and> hasPaid v = paid \<and> vip_invariant v)"
      using a b by (rule conjI)
  qed
  note r1 = srv_register_store[of e db n m p]
  note r2 = auth_register_store[of e db n m p]
  note r6 = srv_payment_store[of e h db]
  note r7 = srv_vip_store[of e h db target paid]
  note m1 = vip_dates_srv_payment[of e h db, THEN conjunct1]
  note m2 = vip_dates_srv_payment[of e h db, THEN conjunct2]
  note m3 = vip_dates_srv_vip[of e h db target paid, THEN conjunct1]
  note m4 = vip_dates_srv_vip[of e h db target paid, THEN conjunct2]
  show ?thesis
    by (intro conjI)
       (rule r1, rule r2, rule c1, rule c2, rule c3, rule r6, rule r7, rule o1, rule o2,
        rule m1, rule m2, rule m3, rule m4)
qed

lemma token_boss_router: "auth env0 (Some ''ttt'') = Inr 2"
  by (simp add: auth_def env0_def)

theorem vip_dates_router_based_witness:
  "fst (fst (admin_vip env0 (Some ''ttt'') db0 1 True)) = 200
   \<and> (\<exists>v. findById (snd (admin_vip env0 (Some ''ttt'') db0 1 True)) 1 = Some v
          \<and> hasPaid v = True \<and> vip_invariant v)"
proof -
  have ok: "fst (fst (admin_vip env0 (Some ''ttt'') db0 1 True)) = 200"
    using token_boss_router findById_boss findById_alice
    by (simp add: admin_vip_def with_auth_isAdmin_def with_auth_def isAdmin_middleware_def
          admin_vip_handler_def findByIdAndUpdate_def boss_def)
  note T = vip_dates_router_based[of env0 db0 _ _ _ "Some ''ttt''" 1 True]
  show ?thesis
    using ok T[THEN conjunct2, THEN conjunct2, THEN conjunct2, THEN conjunct2, THEN conjunct1,
               rule_format, OF ok, THEN conjunct2]
    by (intro conjI)
qed

section \<open>Change of password\<close>

text \<open>
  The handler of \<^verbatim>\<open>routes/auth\<close> refuses a new password of fewer than 6
  characters with 400 and leaves the store as it is.
\<close>

lemma auth_change_password_short:
  assumes "auth e t = Inr i" and "length p < 6"
  shows "fst (fst (auth_change_password e t db cur (Some p))) = 400
       \<and> snd (auth_change_password e t db cur (Some p)) = db"
  using assms
  by (simp add: auth_change_password_def with_auth_def auth_change_password_handler_def)

text \<open>
  C5 at PATCH /api/auth/change-password of \<^verbatim>\<open>server.js\<close>, which has no check of
  the length: with her current password and the new password \<^verbatim>\<open>12345\<close>, \<open>alice\<close>
  gets 200, the stored hash is that of \<^verbatim>\<open>12345\<close>, and the old password no longer
  verifies.
\<close>

theorem srv_change_password_accepts_short_password:
  "length ''12345'' = 5 \<and> authenticateToken env0 (Some ''Bearer tt'') = Inr 1
   \<and> findById db0 1 = Some alice \<and> bcrypt_compare env0 ''secret1'' (password alice)
   \<and> srv_change_password env0 (Some ''Bearer tt'') db0 ''secret1'' ''12345''
       = ((200, message ''Password changed successfully''),
          save_user db0 (alice\<lparr>password := ''$2a$12$54321''\<rparr>))
   \<and> findById (save_user db0 (alice\<lparr>password := ''$2a$12$54321''\<rparr>)) 1
       = Some (alice\<lparr>password := ''$2a$12$54321''\<rparr>)
   \<and> \<not> bcrypt_compare env0 ''secret1'' ''$2a$12$54321''"
proof -
  have c: "bcrypt_compare env0 ''secret1'' (password alice)"
    by (simp add: env0_def alice_def)
  have h: "bcrypt_hash env0 ''12345'' = ''$2a$12$54321''"
    by (simp add: env0_def)
  have n: "\<not> bcrypt_compare env0 ''secret1'' ''$2a$12$54321''"
    by (simp add: env0_def)
  have run: "srv_change_password env0 (Some ''Bearer tt'') db0 ''secret1'' ''12345''
       = ((200, message ''Password changed successfully''),
          save_user db0 (alice\<lparr>password := ''$2a$12$54321''\<rparr>))"
    using token_alice findById_alice c h
    by (simp add: srv_change_password_def srv_authenticated_def srv_change_password_handler_def)
  have u: "uid (alice\<lparr>password := ''$2a$12$54321''\<rparr>) = 1"
    by (simp add: alice_def)
  have f: "findById (save_user db0 (alice\<lparr>password := ''$2a$12$54321''\<rparr>)) 1
       = Some (alice\<lparr>password := ''$2a$12$54321''\<rparr>)"
    using findById_save_user_same[of db0 "alice\<lparr>password := ''$2a$12$54321''\<rparr>"]
      findById_alice u by simp
  show ?thesis
    using token_alice findById_alice c run f n by simp
qed

section \<open>Viewing games\<close>

text \<open>
  GET /api/games of \<^verbatim>\<open>server.js\<close> sends every game to an admin or paid account and
  the games not marked VIP to any other.
\<close>

lemma srv_get_games_policy:
  assumes "authenticateToken e h = Inr i" and "findById db i = Some u"
  shows "srv_get_games e h db
           = ((200, JArr (map game_json (sort_desc gcreatedAt
                (if isAdmin u \<or> hasPaid u then games db
                 else filter (\<lambda>g. \<not> isVip g) (games db))))), db)"
  using assms
  by (simp add: srv_get_games_def srv_authenticated_def srv_get_games_handler_def)

text \<open>
  C7 at GET /all of \<^verbatim>\<open>routes/games.js\<close>: \<open>alice\<close>, neither admin nor paid, gets
  every game, the one of the category \<^verbatim>\<open>VIP Tips\<close> included.
\<close>

theorem games_all_sends_vip_games:
  "auth env0 (Some ''tt'') = Inr 1 \<and> findById db0 1 = Some alice
   \<and> \<not> isAdmin alice \<and> \<not> hasPaid alice
   \<and> category vip_game = ''VIP Tips'' \<and> isVip vip_game
   \<and> games_all env0 (Some ''tt'') db0
       = ((200, JArr [game_json vip_game, game_json free_game]), db0)"
proof -
  have a: "\<not> isAdmin alice" "\<not> hasPaid alice" by (simp_all add: alice_def)
  have v: "category vip_game = ''VIP Tips''" "isVip vip_game" by (simp_all add: vip_game_def)
  have s: "sort_desc matchTime (games db0) = [vip_game, free_game]"
    by (simp add: sort_desc_def db0_def free_game_def vip_game_def)
  have run: "games_all env0 (Some ''tt'') db0
       = ((200, JArr [game_json vip_game, game_json free_game]), db0)"
    using token_alice_router s by (simp add: games_all_def with_auth_def games_all_handler_def)
  show ?thesis
    using token_alice_router findById_alice a v run by simp
qed

end
